theory Spec2Isabelle
  imports Complex_Main
begin

section \<open>The notebook \<^verbatim>\<open>python/intro-pytorch.ipynb\<close> as a state-passing program\<close>

text \<open>
  The notebook is a linear script of ten code cells that call the tensor library.
  The script is embedded cell by cell, each cell a function from the interpreter
  state to either the next state or a raised error together with the state at the
  point of the raise.

  The tensor library is not part of the repository.  Its element arithmetic, its
  random number generator and its automatic differentiation are parameters of the
  model (the record \<open>lib\<close>): no law of floating-point arithmetic is assumed, and
  every theorem below holds for every choice of these parameters.  What is modelled
  of the library is its documented interface: shapes, devices, which call can raise,
  and the reduction that \<^verbatim>\<open>MSELoss\<close> applies for each value of
  \<^verbatim>\<open>size_average\<close>.
\<close>

subsection \<open>Tensors, variables, modules\<close>

datatype device = CPU | CUDA

datatype dtype = FloatT | LongT | ByteT

text \<open>A tensor class such as \<^verbatim>\<open>torch.FloatTensor\<close> or \<^verbatim>\<open>torch.cuda.LongTensor\<close>.\<close>

datatype tensor_class = TensorClass device dtype

record 'a tensor =
  dims :: "nat list"
  dev :: device
  elems :: "'a list"

text \<open>\<^verbatim>\<open>torch.autograd.Variable\<close>: a tensor, its accumulated gradient, and the flag.\<close>

record 'a variable =
  data :: "'a tensor"
  grad :: "'a tensor option"
  requires_grad :: bool

text \<open>
  The modules the script instantiates.  \<open>Linear i k w b\<close> is \<^verbatim>\<open>nn.Linear(i, k)\<close> with
  its weight (shape \<open>[k, i]\<close>) and bias (shape \<open>[k]\<close>); \<^verbatim>\<open>nn.Sequential\<close> is the list
  of its modules.
\<close>

datatype 'a module = Linear nat nat "'a variable" "'a variable" | ReLU

text \<open>A loss module: \<^verbatim>\<open>nn.MSELoss(size_average=...)\<close>.\<close>

datatype criterion = MSELoss bool

text \<open>The value bound to \<^verbatim>\<open>y_pred\<close>: the output tensor and what the forward pass recorded.\<close>

record 'a prediction =
  pred_data :: "'a tensor"
  pred_modules :: "'a module list"
  pred_input :: "'a variable"

text \<open>The value bound to \<^verbatim>\<open>loss\<close>: a one-element tensor and the recorded graph.\<close>

record 'a loss_value =
  loss_data :: "'a tensor"
  loss_pred :: "'a prediction"
  loss_target :: "'a variable"
  loss_size_average :: bool

subsection \<open>The library's parameters and the machine\<close>

record ('a, 'g) lib =
  fadd :: "'a \<Rightarrow> 'a \<Rightarrow> 'a"
  fsub :: "'a \<Rightarrow> 'a \<Rightarrow> 'a"
  fmul :: "'a \<Rightarrow> 'a \<Rightarrow> 'a"
  fdiv :: "'a \<Rightarrow> 'a \<Rightarrow> 'a"
  fzero :: 'a
  frelu :: "'a \<Rightarrow> 'a"
  of_int_f :: "int \<Rightarrow> 'a"
  float_lit :: "int \<Rightarrow> int \<Rightarrow> 'a"
  uninit :: 'a
  normal :: "'g \<Rightarrow> 'a \<times> 'g"
  uniform :: "nat \<Rightarrow> 'g \<Rightarrow> 'a \<times> 'g"
  autograd :: "'a loss_value \<Rightarrow> nat \<Rightarrow> nat \<Rightarrow> 'a"

text \<open>
  \<open>float_lit m k\<close> is the Python float literal \<open>m\<close>e\<open>k\<close>; \<open>uninit\<close> fills freshly
  allocated storage; \<open>normal\<close> draws one sample for \<^verbatim>\<open>torch.randn\<close>; \<open>uniform n\<close>
  draws one sample for the initialisation of a linear layer with \<open>n\<close> inputs;
  \<open>autograd l p j\<close> is the derivative of the loss \<open>l\<close> in element \<open>j\<close> of parameter
  number \<open>p\<close>, as the library's backward pass computes it.
\<close>

record env =
  torch_installed :: bool
  cuda_available :: bool
  torch_version :: string

datatype error =
  ImportError | CudaError | NameError string | RuntimeError | TypeError
  | AssertionError | AttributeError | IndexError

text \<open>
  The calls the script makes.  Every statement records its calls, in the order it makes
  them and before their outcome is known, in the component \<open>trace\<close> of the state: a
  call that raises is the last one recorded.
\<close>

datatype event =
  E_import_torch | E_version | E_is_available | E_cuda_FloatTensor | E_zero
  | E_randn "nat list" | E_cuda | E_add | E_set_default_tensor_type
  | E_new_tensor tensor_class | E_import_nn | E_import_Variable | E_Variable
  | E_Linear nat nat | E_ReLU | E_Sequential nat | E_model_cuda | E_MSELoss bool
  | E_forward | E_loss_fn | E_print | E_zero_grad | E_backward | E_parameters
  | E_update nat

datatype 'a printed =
  Out_version string
  | Out_cuda_available bool
  | Out_tensor string "'a tensor"
  | Out_variable string "'a variable"
  | Out_model "'a module list"
  | Out_loss nat 'a

text \<open>
  The interpreter state: the calls made so far, the printed lines, the library's
  generator and default tensor type, and the script's global names (unbound until
  assigned).
\<close>

record ('a, 'g) state =
  trace :: "event list"
  stdout :: "'a printed list"
  rng :: 'g
  default_device :: device
  py_a :: "'a tensor option"
  py_b :: "'a tensor option"
  py_c :: "'a tensor option"
  py_use_cuda :: "bool option"
  py_FloatTensor :: "tensor_class option"
  py_LongTensor :: "tensor_class option"
  py_ByteTensor :: "tensor_class option"
  py_Tensor :: "tensor_class option"
  py_d :: "'a tensor option"
  py_N :: "nat option"
  py_dim_in :: "nat option"
  py_H :: "nat option"
  py_dim_out :: "nat option"
  py_x :: "'a variable option"
  py_y :: "'a variable option"
  py_model :: "'a module list option"
  py_loss_fn :: "criterion option"
  py_learning_rate :: "'a option"
  py_t :: "nat option"
  py_y_pred :: "'a prediction option"
  py_loss :: "'a loss_value option"

type_synonym ('a, 'g) result = "(error \<times> ('a, 'g) state) + ('a, 'g) state"

definition initial_state :: "'g \<Rightarrow> ('a, 'g) state" where
  "initial_state g =
     \<lparr>trace = [], stdout = [], rng = g, default_device = CPU,
      py_a = None, py_b = None, py_c = None, py_use_cuda = None,
      py_FloatTensor = None, py_LongTensor = None, py_ByteTensor = None,
      py_Tensor = None, py_d = None, py_N = None, py_dim_in = None, py_H = None,
      py_dim_out = None, py_x = None, py_y = None, py_model = None,
      py_loss_fn = None, py_learning_rate = None, py_t = None, py_y_pred = None,
      py_loss = None\<rparr>"

subsection \<open>Sequencing: a raise ends the run\<close>

definition raise :: "error \<Rightarrow> ('a, 'g) state \<Rightarrow> ('a, 'g) result" where
  "raise e s = Inl (e, s)"

definition call :: "event \<Rightarrow> ('a, 'g) state \<Rightarrow> ('a, 'g) state" where
  "call ev s = s\<lparr>trace := trace s @ [ev]\<rparr>"

definition print :: "'a printed \<Rightarrow> ('a, 'g) state \<Rightarrow> ('a, 'g) state" where
  "print line s = s\<lparr>trace := trace s @ [E_print], stdout := stdout s @ [line]\<rparr>"

text \<open>Statements in sequence: the first raise is the result, and nothing after it runs.\<close>

fun exec_seq :: "(('a, 'g) state \<Rightarrow> ('a, 'g) result) list \<Rightarrow> ('a, 'g) state \<Rightarrow> ('a, 'g) result" where
  "exec_seq [] s = Inr s"
| "exec_seq (f # fs) s = (case f s of Inl err \<Rightarrow> Inl err | Inr s' \<Rightarrow> exec_seq fs s')"

text \<open>\<^verbatim>\<open>for v in vs: body\<close>.\<close>

fun for_each :: "('b \<Rightarrow> ('a, 'g) state \<Rightarrow> ('a, 'g) result) \<Rightarrow> 'b list \<Rightarrow> ('a, 'g) state \<Rightarrow> ('a, 'g) result" where
  "for_each body [] s = Inr s"
| "for_each body (v # vs) s = (case body v s of Inl err \<Rightarrow> Inl err | Inr s' \<Rightarrow> for_each body vs s')"

subsection \<open>The library's tensor operations\<close>

definition numel :: "nat list \<Rightarrow> nat" where
  "numel ds = prod_list ds"

text \<open>\<open>n\<close> samples in a row from the generator.\<close>

fun draws :: "('g \<Rightarrow> 'a \<times> 'g) \<Rightarrow> nat \<Rightarrow> 'g \<Rightarrow> 'a list \<times> 'g" where
  "draws f 0 g = ([], g)"
| "draws f (Suc n) g =
     (case f g of (v, g1) \<Rightarrow> (case draws f n g1 of (vs, g2) \<Rightarrow> (v # vs, g2)))"

text \<open>
  The library's contract for the accelerator: an allocation on it, or a transfer to it,
  raises on a machine where \<^verbatim>\<open>torch.cuda.is_available()\<close> is false.  \<open>CudaError\<close>
  stands for whichever error the library raises there.
\<close>

definition device_ready :: "env \<Rightarrow> device \<Rightarrow> bool" where
  "device_ready e d = (case d of CPU \<Rightarrow> True | CUDA \<Rightarrow> cuda_available e)"

text \<open>\<^verbatim>\<open>cls(n1, ..., nk)\<close>: a tensor of the class with the given sizes, not initialised.\<close>

definition new_tensor :: "('a, 'g) lib \<Rightarrow> env \<Rightarrow> tensor_class \<Rightarrow> nat list \<Rightarrow> error + 'a tensor" where
  "new_tensor L e cls ds =
     (case cls of TensorClass d ty \<Rightarrow>
        if device_ready e d
        then Inr \<lparr>dims = ds, dev = d, elems = replicate (numel ds) (uninit L)\<rparr>
        else Inl CudaError)"

text \<open>\<^verbatim>\<open>cls([[...], ...])\<close>: a two-dimensional tensor from a list of rows of integers.\<close>

definition tensor_of_rows :: "('a, 'g) lib \<Rightarrow> env \<Rightarrow> tensor_class \<Rightarrow> int list list \<Rightarrow> error + 'a tensor" where
  "tensor_of_rows L e cls rows =
     (case cls of TensorClass d ty \<Rightarrow>
        if \<not> device_ready e d then Inl CudaError
        else (case rows of
                [] \<Rightarrow> Inl TypeError
              | r # rs \<Rightarrow>
                  if list_all (\<lambda>q. length q = length r) rs
                  then Inr \<lparr>dims = [length rows, length r], dev = d,
                            elems = map (of_int_f L) (concat rows)\<rparr>
                  else Inl TypeError))"

text \<open>\<^verbatim>\<open>t.zero_()\<close>.\<close>

definition zero_fill :: "('a, 'g) lib \<Rightarrow> 'a tensor \<Rightarrow> 'a tensor" where
  "zero_fill L t = t\<lparr>elems := map (\<lambda>v. fzero L) (elems t)\<rparr>"

text \<open>\<^verbatim>\<open>torch.randn(n1, ..., nk)\<close>, allocated with the default tensor type.\<close>

definition randn :: "('a, 'g) lib \<Rightarrow> env \<Rightarrow> device \<Rightarrow> nat list \<Rightarrow> 'g \<Rightarrow> error + ('a tensor \<times> 'g)" where
  "randn L e d ds g =
     (if device_ready e d
      then (case draws (normal L) (numel ds) g of
              (vs, g') \<Rightarrow> Inr (\<lparr>dims = ds, dev = d, elems = vs\<rparr>, g'))
      else Inl CudaError)"

text \<open>\<^verbatim>\<open>t.cuda()\<close>.\<close>

definition to_cuda :: "env \<Rightarrow> 'a tensor \<Rightarrow> error + 'a tensor" where
  "to_cuda e t = (if cuda_available e then Inr (t\<lparr>dev := CUDA\<rparr>) else Inl CudaError)"

text \<open>\<^verbatim>\<open>a + b\<close> on tensors of one device and one shape.\<close>

definition tensor_add :: "('a, 'g) lib \<Rightarrow> 'a tensor \<Rightarrow> 'a tensor \<Rightarrow> error + 'a tensor" where
  "tensor_add L a b =
     (if dev a \<noteq> dev b then Inl TypeError
      else if dims a \<noteq> dims b then Inl RuntimeError
      else Inr (a\<lparr>elems := map2 (fadd L) (elems a) (elems b)\<rparr>))"

text \<open>\<^verbatim>\<open>Variable(t)\<close> and \<^verbatim>\<open>Variable(t, requires_grad=False)\<close>.\<close>

definition Variable :: "'a tensor \<Rightarrow> bool \<Rightarrow> 'a variable" where
  "Variable t rg = \<lparr>data = t, grad = None, requires_grad = rg\<rparr>"

text \<open>
  \<^verbatim>\<open>nn.Linear(i, k)\<close>: the weight and the bias are allocated with the default tensor
  type and filled, weight first, with uniform samples scaled by the number of inputs.
\<close>

definition new_linear :: "('a, 'g) lib \<Rightarrow> env \<Rightarrow> device \<Rightarrow> nat \<Rightarrow> nat \<Rightarrow> 'g \<Rightarrow> error + ('a module \<times> 'g)" where
  "new_linear L e d i k g =
     (if device_ready e d
      then (case draws (uniform L i) (k * i) g of
              (ws, g1) \<Rightarrow>
                (case draws (uniform L i) k g1 of
                   (bs, g2) \<Rightarrow>
                     Inr (Linear i k
                            (Variable \<lparr>dims = [k, i], dev = d, elems = ws\<rparr> True)
                            (Variable \<lparr>dims = [k], dev = d, elems = bs\<rparr> True), g2)))
      else Inl CudaError)"

text \<open>\<^verbatim>\<open>model.parameters()\<close>: weight, then bias, of each linear module in order.\<close>

fun module_parameters :: "'a module \<Rightarrow> 'a variable list" where
  "module_parameters (Linear i k w b) = [w, b]"
| "module_parameters ReLU = []"

definition parameters :: "'a module list \<Rightarrow> 'a variable list" where
  "parameters ms = concat (map module_parameters ms)"

text \<open>
  The parameters are objects shared with the model: a write to one of them is a write
  into the model.  \<open>set_parameters ms vs\<close> is the model \<open>ms\<close> with its parameters, in
  the order of \<open>parameters\<close>, replaced by \<open>vs\<close>.
\<close>

fun set_parameters :: "'a module list \<Rightarrow> 'a variable list \<Rightarrow> 'a module list" where
  "set_parameters [] vs = []"
| "set_parameters (Linear i k w b # ms) vs =
     (case vs of
        w' # b' # rest \<Rightarrow> Linear i k w' b' # set_parameters ms rest
      | _ \<Rightarrow> Linear i k w b # ms)"
| "set_parameters (ReLU # ms) vs = ReLU # set_parameters ms vs"

text \<open>\<^verbatim>\<open>model.cuda()\<close>: every parameter, and its gradient, moves to the accelerator.\<close>

definition variable_cuda :: "'a variable \<Rightarrow> 'a variable" where
  "variable_cuda v =
     v\<lparr>data := (data v)\<lparr>dev := CUDA\<rparr>, grad := map_option (\<lambda>g. g\<lparr>dev := CUDA\<rparr>) (grad v)\<rparr>"

definition model_cuda :: "'a module list \<Rightarrow> 'a module list" where
  "model_cuda ms = set_parameters ms (map variable_cuda (parameters ms))"

subsection \<open>Cells 1 to 3: loading the library, its version, the accelerator query\<close>

definition stmt_import_torch :: "env \<Rightarrow> ('a, 'g) state \<Rightarrow> ('a, 'g) result" where
  "stmt_import_torch e s =
     (let s1 = call E_import_torch s
      in if torch_installed e then Inr s1 else raise ImportError s1)"

definition stmt_print_version :: "env \<Rightarrow> ('a, 'g) state \<Rightarrow> ('a, 'g) result" where
  "stmt_print_version e s = Inr (print (Out_version (torch_version e)) (call E_version s))"

text \<open>The result of the query is printed and not kept.\<close>

definition stmt_print_cuda_available :: "env \<Rightarrow> ('a, 'g) state \<Rightarrow> ('a, 'g) result" where
  "stmt_print_cuda_available e s =
     Inr (print (Out_cuda_available (cuda_available e)) (call E_is_available s))"

subsection \<open>Cell 4: tensors on the accelerator\<close>

text \<open>\<^verbatim>\<open>a = torch.cuda.FloatTensor(2).zero_()\<close>\<close>

definition stmt_a :: "('a, 'g) lib \<Rightarrow> env \<Rightarrow> ('a, 'g) state \<Rightarrow> ('a, 'g) result" where
  "stmt_a L e s =
     (let s1 = call E_cuda_FloatTensor s
      in case new_tensor L e (TensorClass CUDA FloatT) [2] of
           Inl err \<Rightarrow> raise err s1
         | Inr t0 \<Rightarrow> Inr ((call E_zero s1)\<lparr>py_a := Some (zero_fill L t0)\<rparr>))"

definition stmt_print_a :: "('a, 'g) state \<Rightarrow> ('a, 'g) result" where
  "stmt_print_a s =
     (case py_a s of
        None \<Rightarrow> raise (NameError ''a'') s
      | Some a \<Rightarrow> Inr (print (Out_tensor ''a'' a) s))"

text \<open>\<^verbatim>\<open>b = torch.randn(2).cuda()\<close>\<close>

definition stmt_b :: "('a, 'g) lib \<Rightarrow> env \<Rightarrow> ('a, 'g) state \<Rightarrow> ('a, 'g) result" where
  "stmt_b L e s =
     (let s1 = call (E_randn [2]) s
      in case randn L e (default_device s1) [2] (rng s1) of
           Inl err \<Rightarrow> raise err s1
         | Inr (t0, g) \<Rightarrow>
             (let s2 = call E_cuda (s1\<lparr>rng := g\<rparr>)
              in case to_cuda e t0 of
                   Inl err \<Rightarrow> raise err s2
                 | Inr b \<Rightarrow> Inr (s2\<lparr>py_b := Some b\<rparr>)))"

definition stmt_print_b :: "('a, 'g) state \<Rightarrow> ('a, 'g) result" where
  "stmt_print_b s =
     (case py_b s of
        None \<Rightarrow> raise (NameError ''b'') s
      | Some b \<Rightarrow> Inr (print (Out_tensor ''b'' b) s))"

text \<open>\<^verbatim>\<open>c = a + b\<close>\<close>

definition stmt_c :: "('a, 'g) lib \<Rightarrow> ('a, 'g) state \<Rightarrow> ('a, 'g) result" where
  "stmt_c L s =
     (case py_a s of
        None \<Rightarrow> raise (NameError ''a'') s
      | Some a \<Rightarrow>
          (case py_b s of
             None \<Rightarrow> raise (NameError ''b'') s
           | Some b \<Rightarrow>
               (let s1 = call E_add s
                in case tensor_add L a b of
                     Inl err \<Rightarrow> raise err s1
                   | Inr c \<Rightarrow> Inr (s1\<lparr>py_c := Some c\<rparr>))))"

definition stmt_print_c :: "('a, 'g) state \<Rightarrow> ('a, 'g) result" where
  "stmt_print_c s =
     (case py_c s of
        None \<Rightarrow> raise (NameError ''c'') s
      | Some c \<Rightarrow> Inr (print (Out_tensor ''c'' c) s))"

subsection \<open>Cell 5: the default tensor type\<close>

text \<open>\<^verbatim>\<open>use_cuda = torch.cuda.is_available()\<close>\<close>

definition stmt_use_cuda :: "env \<Rightarrow> ('a, 'g) state \<Rightarrow> ('a, 'g) result" where
  "stmt_use_cuda e s = Inr ((call E_is_available s)\<lparr>py_use_cuda := Some (cuda_available e)\<rparr>)"

text \<open>\<^verbatim>\<open>FloatTensor = torch.cuda.FloatTensor if use_cuda else torch.FloatTensor\<close>, and the
  same for the two other classes.\<close>

definition class_for :: "bool \<Rightarrow> dtype \<Rightarrow> tensor_class" where
  "class_for u ty = TensorClass (if u then CUDA else CPU) ty"

definition stmt_FloatTensor :: "('a, 'g) state \<Rightarrow> ('a, 'g) result" where
  "stmt_FloatTensor s =
     (case py_use_cuda s of
        None \<Rightarrow> raise (NameError ''use_cuda'') s
      | Some u \<Rightarrow> Inr (s\<lparr>py_FloatTensor := Some (class_for u FloatT)\<rparr>))"

definition stmt_LongTensor :: "('a, 'g) state \<Rightarrow> ('a, 'g) result" where
  "stmt_LongTensor s =
     (case py_use_cuda s of
        None \<Rightarrow> raise (NameError ''use_cuda'') s
      | Some u \<Rightarrow> Inr (s\<lparr>py_LongTensor := Some (class_for u LongT)\<rparr>))"

definition stmt_ByteTensor :: "('a, 'g) state \<Rightarrow> ('a, 'g) result" where
  "stmt_ByteTensor s =
     (case py_use_cuda s of
        None \<Rightarrow> raise (NameError ''use_cuda'') s
      | Some u \<Rightarrow> Inr (s\<lparr>py_ByteTensor := Some (class_for u ByteT)\<rparr>))"

definition stmt_Tensor :: "('a, 'g) state \<Rightarrow> ('a, 'g) result" where
  "stmt_Tensor s =
     (case py_FloatTensor s of
        None \<Rightarrow> raise (NameError ''FloatTensor'') s
      | Some cls \<Rightarrow> Inr (s\<lparr>py_Tensor := Some cls\<rparr>))"

text \<open>\<^verbatim>\<open>if use_cuda: torch.set_default_tensor_type('torch.cuda.FloatTensor')\<close>\<close>

definition stmt_set_default :: "('a, 'g) state \<Rightarrow> ('a, 'g) result" where
  "stmt_set_default s =
     (case py_use_cuda s of
        None \<Rightarrow> raise (NameError ''use_cuda'') s
      | Some u \<Rightarrow>
          if u then Inr ((call E_set_default_tensor_type s)\<lparr>default_device := CUDA\<rparr>)
          else Inr s)"

text \<open>\<^verbatim>\<open>d = FloatTensor([[1, 2, 3], [4, 5, 6]])\<close>\<close>

definition stmt_d :: "('a, 'g) lib \<Rightarrow> env \<Rightarrow> ('a, 'g) state \<Rightarrow> ('a, 'g) result" where
  "stmt_d L e s =
     (case py_FloatTensor s of
        None \<Rightarrow> raise (NameError ''FloatTensor'') s
      | Some cls \<Rightarrow>
          (let s1 = call (E_new_tensor cls) s
           in case tensor_of_rows L e cls [[1, 2, 3], [4, 5, 6]] of
                Inl err \<Rightarrow> raise err s1
              | Inr d \<Rightarrow> Inr (s1\<lparr>py_d := Some d\<rparr>)))"

definition stmt_print_d :: "('a, 'g) state \<Rightarrow> ('a, 'g) result" where
  "stmt_print_d s =
     (case py_d s of
        None \<Rightarrow> raise (NameError ''d'') s
      | Some d \<Rightarrow> Inr (print (Out_tensor ''d'' d) s))"

subsection \<open>Cells 6 and 7: the network package, the input and the target\<close>

definition stmt_import_nn :: "env \<Rightarrow> ('a, 'g) state \<Rightarrow> ('a, 'g) result" where
  "stmt_import_nn e s =
     (let s1 = call E_import_nn s
      in if torch_installed e then Inr s1 else raise ImportError s1)"

definition stmt_import_Variable :: "env \<Rightarrow> ('a, 'g) state \<Rightarrow> ('a, 'g) result" where
  "stmt_import_Variable e s =
     (let s1 = call E_import_Variable s
      in if torch_installed e then Inr s1 else raise ImportError s1)"

text \<open>\<^verbatim>\<open>N, dim_in, H, dim_out = 64, 1000, 100, 10\<close>\<close>

definition stmt_sizes :: "('a, 'g) state \<Rightarrow> ('a, 'g) result" where
  "stmt_sizes s =
     Inr (s\<lparr>py_N := Some 64, py_dim_in := Some 1000, py_H := Some 100, py_dim_out := Some 10\<rparr>)"

text \<open>\<^verbatim>\<open>x = Variable(torch.randn(N, dim_in))\<close>\<close>

definition stmt_x :: "('a, 'g) lib \<Rightarrow> env \<Rightarrow> ('a, 'g) state \<Rightarrow> ('a, 'g) result" where
  "stmt_x L e s =
     (case py_N s of
        None \<Rightarrow> raise (NameError ''N'') s
      | Some n \<Rightarrow>
          (case py_dim_in s of
             None \<Rightarrow> raise (NameError ''dim_in'') s
           | Some i \<Rightarrow>
               (let s1 = call (E_randn [n, i]) s
                in case randn L e (default_device s1) [n, i] (rng s1) of
                     Inl err \<Rightarrow> raise err s1
                   | Inr (t0, g) \<Rightarrow>
                       Inr ((call E_Variable (s1\<lparr>rng := g\<rparr>))\<lparr>py_x := Some (Variable t0 False)\<rparr>))))"

text \<open>\<^verbatim>\<open>y = Variable(torch.randn(N, dim_out), requires_grad=False)\<close>\<close>

definition stmt_y :: "('a, 'g) lib \<Rightarrow> env \<Rightarrow> ('a, 'g) state \<Rightarrow> ('a, 'g) result" where
  "stmt_y L e s =
     (case py_N s of
        None \<Rightarrow> raise (NameError ''N'') s
      | Some n \<Rightarrow>
          (case py_dim_out s of
             None \<Rightarrow> raise (NameError ''dim_out'') s
           | Some k \<Rightarrow>
               (let s1 = call (E_randn [n, k]) s
                in case randn L e (default_device s1) [n, k] (rng s1) of
                     Inl err \<Rightarrow> raise err s1
                   | Inr (t0, g) \<Rightarrow>
                       Inr ((call E_Variable (s1\<lparr>rng := g\<rparr>))\<lparr>py_y := Some (Variable t0 False)\<rparr>))))"

definition stmt_print_x :: "('a, 'g) state \<Rightarrow> ('a, 'g) result" where
  "stmt_print_x s =
     (case py_x s of
        None \<Rightarrow> raise (NameError ''x'') s
      | Some x \<Rightarrow> Inr (print (Out_variable ''x'' x) s))"

subsection \<open>Cells 8 and 9: the model and the loss function\<close>

text \<open>
  \<^verbatim>\<open>model = nn.Sequential(nn.Linear(dim_in, H), nn.ReLU(), nn.Linear(H, dim_out))\<close>:
  the three arguments are built left to right, then the container.
\<close>

definition stmt_model :: "('a, 'g) lib \<Rightarrow> env \<Rightarrow> ('a, 'g) state \<Rightarrow> ('a, 'g) result" where
  "stmt_model L e s =
     (case py_dim_in s of
        None \<Rightarrow> raise (NameError ''dim_in'') s
      | Some i \<Rightarrow>
     (case py_H s of
        None \<Rightarrow> raise (NameError ''H'') s
      | Some h \<Rightarrow>
          (let s1 = call (E_Linear i h) s
           in case new_linear L e (default_device s1) i h (rng s1) of
                Inl err \<Rightarrow> raise err s1
              | Inr (m1, g1) \<Rightarrow>
                  (let s2 = call E_ReLU (s1\<lparr>rng := g1\<rparr>)
                   in case py_dim_out s2 of
                        None \<Rightarrow> raise (NameError ''dim_out'') s2
                      | Some k \<Rightarrow>
                          (let s3 = call (E_Linear h k) s2
                           in case new_linear L e (default_device s3) h k (rng s3) of
                                Inl err \<Rightarrow> raise err s3
                              | Inr (m3, g3) \<Rightarrow>
                                  Inr ((call (E_Sequential 3) (s3\<lparr>rng := g3\<rparr>))
                                         \<lparr>py_model := Some [m1, ReLU, m3]\<rparr>))))))"

text \<open>\<^verbatim>\<open>if use_cuda: model.cuda()\<close>\<close>

definition stmt_model_cuda :: "env \<Rightarrow> ('a, 'g) state \<Rightarrow> ('a, 'g) result" where
  "stmt_model_cuda e s =
     (case py_use_cuda s of
        None \<Rightarrow> raise (NameError ''use_cuda'') s
      | Some u \<Rightarrow>
          if u
          then (case py_model s of
                  None \<Rightarrow> raise (NameError ''model'') s
                | Some m \<Rightarrow>
                    (let s1 = call E_model_cuda s
                     in if cuda_available e then Inr (s1\<lparr>py_model := Some (model_cuda m)\<rparr>)
                        else raise CudaError s1))
          else Inr s)"

definition stmt_print_model :: "('a, 'g) state \<Rightarrow> ('a, 'g) result" where
  "stmt_print_model s =
     (case py_model s of
        None \<Rightarrow> raise (NameError ''model'') s
      | Some m \<Rightarrow> Inr (print (Out_model m) s))"

text \<open>\<^verbatim>\<open>loss_fn = nn.MSELoss(size_average=False)\<close>\<close>

definition stmt_loss_fn :: "('a, 'g) state \<Rightarrow> ('a, 'g) result" where
  "stmt_loss_fn s = Inr ((call (E_MSELoss False) s)\<lparr>py_loss_fn := Some (MSELoss False)\<rparr>)"

subsection \<open>The library's forward pass, loss and backward pass\<close>

text \<open>Row \<open>r\<close> of a row-major matrix with rows of width \<open>w\<close>.\<close>

definition matrix_rows :: "nat \<Rightarrow> nat \<Rightarrow> 'a list \<Rightarrow> 'a list list" where
  "matrix_rows n w xs = map (\<lambda>r. take w (drop (r * w) xs)) [0..<n]"

definition dot :: "('a, 'g) lib \<Rightarrow> 'a list \<Rightarrow> 'a list \<Rightarrow> 'a" where
  "dot L xs ws = foldl (fadd L) (fzero L) (map2 (fmul L) xs ws)"

text \<open>
  A linear module maps the last dimension of its input from \<open>i\<close> to \<open>k\<close> features:
  each output row is the weight matrix applied to the input row, plus the bias.
  The rectifier works element by element.
\<close>

fun module_forward :: "('a, 'g) lib \<Rightarrow> 'a module \<Rightarrow> 'a tensor \<Rightarrow> error + 'a tensor" where
  "module_forward L (Linear i k w b) t =
     (if dims t = [] \<or> last (dims t) \<noteq> i then Inl RuntimeError
      else if dev t \<noteq> dev (data w) \<or> dev t \<noteq> dev (data b) then Inl TypeError
      else Inr \<lparr>dims = butlast (dims t) @ [k], dev = dev t,
                elems = concat (map (\<lambda>xr. map2 (\<lambda>wr bj. fadd L (dot L xr wr) bj)
                                            (matrix_rows k i (elems (data w)))
                                            (elems (data b)))
                                  (matrix_rows (numel (butlast (dims t))) i (elems t)))\<rparr>)"
| "module_forward L ReLU t = Inr (t\<lparr>elems := map (frelu L) (elems t)\<rparr>)"

text \<open>\<^verbatim>\<open>nn.Sequential\<close> applies its modules in order.\<close>

fun sequential_forward :: "('a, 'g) lib \<Rightarrow> 'a module list \<Rightarrow> 'a tensor \<Rightarrow> error + 'a tensor" where
  "sequential_forward L [] t = Inr t"
| "sequential_forward L (m # ms) t =
     (case module_forward L m t of
        Inl err \<Rightarrow> Inl err
      | Inr t' \<Rightarrow> sequential_forward L ms t')"

text \<open>
  The squared-error criterion of the library: the squared differences of all elements
  are added up, and the total is divided by the number of elements only when
  \<^verbatim>\<open>size_average\<close> is set.
\<close>

definition squared_errors :: "('a, 'g) lib \<Rightarrow> 'a list \<Rightarrow> 'a list \<Rightarrow> 'a list" where
  "squared_errors L ps ts = map2 (\<lambda>p t. fmul L (fsub L p t) (fsub L p t)) ps ts"

definition total :: "('a, 'g) lib \<Rightarrow> 'a list \<Rightarrow> 'a" where
  "total L vs = foldl (fadd L) (fzero L) vs"

definition mse_loss :: "('a, 'g) lib \<Rightarrow> bool \<Rightarrow> 'a tensor \<Rightarrow> 'a tensor \<Rightarrow> error + 'a tensor" where
  "mse_loss L size_average p t =
     (if dev p \<noteq> dev t then Inl TypeError
      else if dims p \<noteq> dims t then Inl RuntimeError
      else let sq = squared_errors L (elems p) (elems t);
               sm = total L sq
           in Inr \<lparr>dims = [1], dev = dev p,
                    elems = [if size_average
                             then fdiv L sm (of_int_f L (int (length sq)))
                             else sm]\<rparr>)"

text \<open>Calling a criterion: the library refuses a target that requires a gradient.\<close>

fun criterion_call :: "('a, 'g) lib \<Rightarrow> criterion \<Rightarrow> 'a prediction \<Rightarrow> 'a variable \<Rightarrow> error + 'a loss_value" where
  "criterion_call L (MSELoss size_average) p y =
     (if requires_grad y then Inl AssertionError
      else (case mse_loss L size_average (pred_data p) (data y) of
              Inl err \<Rightarrow> Inl err
            | Inr l \<Rightarrow>
                Inr \<lparr>loss_data = l, loss_pred = p, loss_target = y,
                     loss_size_average = size_average\<rparr>))"

text \<open>\<^verbatim>\<open>model.zero_grad()\<close>: a gradient that exists is replaced by zeros of its shape.\<close>

definition variable_zero_grad :: "('a, 'g) lib \<Rightarrow> 'a variable \<Rightarrow> 'a variable" where
  "variable_zero_grad L v = v\<lparr>grad := map_option (zero_fill L) (grad v)\<rparr>"

definition model_zero_grad :: "('a, 'g) lib \<Rightarrow> 'a module list \<Rightarrow> 'a module list" where
  "model_zero_grad L ms = set_parameters ms (map (variable_zero_grad L) (parameters ms))"

text \<open>
  \<^verbatim>\<open>loss.backward()\<close>: for every parameter that requires a gradient, the gradient of
  the loss, in the parameter's shape and on its device, is stored in the parameter,
  added to the gradient already there.
\<close>

definition gradient_of :: "('a, 'g) lib \<Rightarrow> 'a loss_value \<Rightarrow> nat \<Rightarrow> 'a variable \<Rightarrow> 'a tensor" where
  "gradient_of L l p v =
     \<lparr>dims = dims (data v), dev = dev (data v),
      elems = map (autograd L l p) [0..<length (elems (data v))]\<rparr>"

definition accumulate_grad :: "('a, 'g) lib \<Rightarrow> 'a loss_value \<Rightarrow> nat \<Rightarrow> 'a variable \<Rightarrow> 'a variable" where
  "accumulate_grad L l p v =
     (if requires_grad v
      then (case grad v of
              None \<Rightarrow> v\<lparr>grad := Some (gradient_of L l p v)\<rparr>
            | Some old \<Rightarrow>
                v\<lparr>grad := Some (old\<lparr>elems := map2 (fadd L) (elems old)
                                                    (elems (gradient_of L l p v))\<rparr>)\<rparr>)
      else v)"

definition model_backward :: "('a, 'g) lib \<Rightarrow> 'a loss_value \<Rightarrow> 'a module list \<Rightarrow> 'a module list" where
  "model_backward L l ms =
     set_parameters ms
       (map (\<lambda>(p, v). accumulate_grad L l p v) (zip [0..<length (parameters ms)] (parameters ms)))"

text \<open>\<^verbatim>\<open>lr * g\<close> for a Python float and a tensor, and the in-place \<^verbatim>\<open>d -= r\<close>.\<close>

definition tensor_rmul :: "('a, 'g) lib \<Rightarrow> 'a \<Rightarrow> 'a tensor \<Rightarrow> 'a tensor" where
  "tensor_rmul L lr g = g\<lparr>elems := map (\<lambda>v. fmul L v lr) (elems g)\<rparr>"

definition tensor_isub :: "('a, 'g) lib \<Rightarrow> 'a tensor \<Rightarrow> 'a tensor \<Rightarrow> error + 'a tensor" where
  "tensor_isub L d r =
     (if dev d \<noteq> dev r then Inl TypeError
      else if dims d \<noteq> dims r then Inl RuntimeError
      else Inr (d\<lparr>elems := map2 (fsub L) (elems d) (elems r)\<rparr>))"

subsection \<open>Cell 10: the training loop\<close>

text \<open>\<^verbatim>\<open>learning_rate = 1e-4\<close>\<close>

definition stmt_learning_rate :: "('a, 'g) lib \<Rightarrow> ('a, 'g) state \<Rightarrow> ('a, 'g) result" where
  "stmt_learning_rate L s = Inr (s\<lparr>py_learning_rate := Some (float_lit L 1 (- 4))\<rparr>)"

text \<open>\<^verbatim>\<open>y_pred = model(x)\<close>\<close>

definition stmt_forward :: "('a, 'g) lib \<Rightarrow> ('a, 'g) state \<Rightarrow> ('a, 'g) result" where
  "stmt_forward L s =
     (case py_model s of
        None \<Rightarrow> raise (NameError ''model'') s
      | Some m \<Rightarrow>
          (case py_x s of
             None \<Rightarrow> raise (NameError ''x'') s
           | Some x \<Rightarrow>
               (let s1 = call E_forward s
                in case sequential_forward L m (data x) of
                     Inl err \<Rightarrow> raise err s1
                   | Inr out \<Rightarrow>
                       Inr (s1\<lparr>py_y_pred :=
                              Some \<lparr>pred_data = out, pred_modules = m, pred_input = x\<rparr>\<rparr>))))"

text \<open>\<^verbatim>\<open>loss = loss_fn(y_pred, y)\<close>\<close>

definition stmt_loss :: "('a, 'g) lib \<Rightarrow> ('a, 'g) state \<Rightarrow> ('a, 'g) result" where
  "stmt_loss L s =
     (case py_loss_fn s of
        None \<Rightarrow> raise (NameError ''loss_fn'') s
      | Some f \<Rightarrow>
          (case py_y_pred s of
             None \<Rightarrow> raise (NameError ''y_pred'') s
           | Some p \<Rightarrow>
               (case py_y s of
                  None \<Rightarrow> raise (NameError ''y'') s
                | Some y \<Rightarrow>
                    (let s1 = call E_loss_fn s
                     in case criterion_call L f p y of
                          Inl err \<Rightarrow> raise err s1
                        | Inr l \<Rightarrow> Inr (s1\<lparr>py_loss := Some l\<rparr>)))))"

text \<open>\<^verbatim>\<open>print('iteration = %03i, loss = ' % t + str(loss.data[0]))\<close>\<close>

definition stmt_print_loss :: "('a, 'g) state \<Rightarrow> ('a, 'g) result" where
  "stmt_print_loss s =
     (case py_t s of
        None \<Rightarrow> raise (NameError ''t'') s
      | Some t \<Rightarrow>
          (case py_loss s of
             None \<Rightarrow> raise (NameError ''loss'') s
           | Some l \<Rightarrow>
               (case elems (loss_data l) of
                  [] \<Rightarrow> raise IndexError s
                | v # vs \<Rightarrow> Inr (print (Out_loss t v) s))))"

text \<open>\<^verbatim>\<open>model.zero_grad()\<close>\<close>

definition stmt_zero_grad :: "('a, 'g) lib \<Rightarrow> ('a, 'g) state \<Rightarrow> ('a, 'g) result" where
  "stmt_zero_grad L s =
     (case py_model s of
        None \<Rightarrow> raise (NameError ''model'') s
      | Some m \<Rightarrow> Inr ((call E_zero_grad s)\<lparr>py_model := Some (model_zero_grad L m)\<rparr>))"

text \<open>
  \<^verbatim>\<open>loss.backward()\<close>.  The gradients go to the parameter objects of the graph, which
  are the model's; were the name \<^verbatim>\<open>model\<close> unbound, the call would still succeed.
\<close>

definition stmt_backward :: "('a, 'g) lib \<Rightarrow> ('a, 'g) state \<Rightarrow> ('a, 'g) result" where
  "stmt_backward L s =
     (case py_loss s of
        None \<Rightarrow> raise (NameError ''loss'') s
      | Some l \<Rightarrow>
          (case py_model s of
             None \<Rightarrow> Inr (call E_backward s)
           | Some m \<Rightarrow> Inr ((call E_backward s)\<lparr>py_model := Some (model_backward L l m)\<rparr>)))"

text \<open>
  \<^verbatim>\<open>param.data -= learning_rate * param.grad.data\<close> for parameter number \<open>p\<close> of the
  model: a parameter without gradient has no \<^verbatim>\<open>data\<close> to read from \<^verbatim>\<open>None\<close>.  The loop
  below only passes numbers of parameters the model has; the first test makes the
  function total.
\<close>

definition stmt_update :: "('a, 'g) lib \<Rightarrow> nat \<Rightarrow> ('a, 'g) state \<Rightarrow> ('a, 'g) result" where
  "stmt_update L p s =
     (case py_model s of
        None \<Rightarrow> raise (NameError ''model'') s
      | Some m \<Rightarrow>
          if length (parameters m) \<le> p then raise IndexError s
          else (let v = parameters m ! p
                in case py_learning_rate s of
                     None \<Rightarrow> raise (NameError ''learning_rate'') s
                   | Some lr \<Rightarrow>
                       (case grad v of
                          None \<Rightarrow> raise AttributeError s
                        | Some g \<Rightarrow>
                            (let s1 = call (E_update p) s
                             in case tensor_isub L (data v) (tensor_rmul L lr g) of
                                  Inl err \<Rightarrow> raise err s1
                                | Inr d \<Rightarrow>
                                    Inr (s1\<lparr>py_model :=
                                           Some (set_parameters m
                                                   ((parameters m)[p := v\<lparr>data := d\<rparr>]))\<rparr>)))))"

text \<open>\<^verbatim>\<open>for param in model.parameters(): ...\<close>\<close>

definition stmt_update_all :: "('a, 'g) lib \<Rightarrow> ('a, 'g) state \<Rightarrow> ('a, 'g) result" where
  "stmt_update_all L s =
     (case py_model s of
        None \<Rightarrow> raise (NameError ''model'') s
      | Some m \<Rightarrow>
          for_each (stmt_update L) [0..<length (parameters m)] (call E_parameters s))"

text \<open>The statements of the loop body, in source order.\<close>

definition loop_body :: "('a, 'g) lib \<Rightarrow> (('a, 'g) state \<Rightarrow> ('a, 'g) result) list" where
  "loop_body L =
     [stmt_forward L, stmt_loss L, stmt_print_loss, stmt_zero_grad L, stmt_backward L,
      stmt_update_all L]"

text \<open>One pass of \<^verbatim>\<open>for t in range(500)\<close>: \<open>t\<close> is bound, then the body runs.\<close>

definition iteration :: "('a, 'g) lib \<Rightarrow> nat \<Rightarrow> ('a, 'g) state \<Rightarrow> ('a, 'g) result" where
  "iteration L t s = exec_seq (loop_body L) (s\<lparr>py_t := Some t\<rparr>)"

definition stmt_train :: "('a, 'g) lib \<Rightarrow> ('a, 'g) state \<Rightarrow> ('a, 'g) result" where
  "stmt_train L s = for_each (iteration L) [0..<500] s"

subsection \<open>The script\<close>

definition cells :: "('a, 'g) lib \<Rightarrow> env \<Rightarrow> (('a, 'g) state \<Rightarrow> ('a, 'g) result) list list" where
  "cells L e =
     [[stmt_import_torch e],
      [stmt_print_version e],
      [stmt_print_cuda_available e],
      [stmt_a L e, stmt_print_a, stmt_b L e, stmt_print_b, stmt_c L, stmt_print_c],
      [stmt_use_cuda e, stmt_FloatTensor, stmt_LongTensor, stmt_ByteTensor, stmt_Tensor,
       stmt_set_default, stmt_d L e, stmt_print_d],
      [stmt_import_nn e, stmt_import_Variable e],
      [stmt_sizes, stmt_x L e, stmt_y L e, stmt_print_x],
      [stmt_model L e, stmt_model_cuda e, stmt_print_model],
      [stmt_loss_fn],
      [stmt_learning_rate L, stmt_train L]]"

text \<open>Running the notebook top to bottom from a fresh interpreter.\<close>

definition script :: "('a, 'g) lib \<Rightarrow> env \<Rightarrow> 'g \<Rightarrow> ('a, 'g) result" where
  "script L e g = exec_seq (concat (cells L e)) (initial_state g)"

section \<open>Vocabulary of the properties\<close>

subsection \<open>Runs of the script\<close>

text \<open>The state a run ends in, whether it ended normally or in a raise.\<close>

definition state_of :: "('a, 'g) result \<Rightarrow> ('a, 'g) state" where
  "state_of r = (case r of Inl (err, s) \<Rightarrow> s | Inr s \<Rightarrow> s)"

text \<open>
  Everything the script runs before the loop statement: cells 1 to 9 and the assignment
  of the learning rate.
\<close>

definition setup_stmts :: "('a, 'g) lib \<Rightarrow> env \<Rightarrow> (('a, 'g) state \<Rightarrow> ('a, 'g) result) list" where
  "setup_stmts L e = concat (butlast (cells L e)) @ [stmt_learning_rate L]"

text \<open>The run up to the point where pass \<open>t\<close> of the loop is about to start.\<close>

definition state_before_iteration :: "('a, 'g) lib \<Rightarrow> env \<Rightarrow> 'g \<Rightarrow> nat \<Rightarrow> ('a, 'g) result" where
  "state_before_iteration L e g t =
     exec_seq (setup_stmts L e @ [for_each (iteration L) [0..<t]]) (initial_state g)"

text \<open>The calls of a successful run before the loop, cell by cell.\<close>

definition setup_events :: "event list" where
  "setup_events =
     [E_import_torch,
      E_version, E_print,
      E_is_available, E_print,
      E_cuda_FloatTensor, E_zero, E_print, E_randn [2], E_cuda, E_print, E_add, E_print,
      E_is_available, E_set_default_tensor_type, E_new_tensor (TensorClass CUDA FloatT), E_print,
      E_import_nn, E_import_Variable,
      E_randn [64, 1000], E_Variable, E_randn [64, 10], E_Variable, E_print,
      E_Linear 1000 100, E_ReLU, E_Linear 100 10, E_Sequential 3, E_model_cuda, E_print,
      E_MSELoss False]"

text \<open>The calls of one pass of the loop over a model with \<open>n\<close> parameters.\<close>

definition iteration_events :: "nat \<Rightarrow> event list" where
  "iteration_events n =
     [E_forward, E_loss_fn, E_print, E_zero_grad, E_backward, E_parameters] @ map E_update [0..<n]"

text \<open>The lines the loop prints: the iteration number and the loss value.\<close>

fun loss_lines :: "'a printed list \<Rightarrow> (nat \<times> 'a) list" where
  "loss_lines [] = []"
| "loss_lines (Out_loss t v # ps) = (t, v) # loss_lines ps"
| "loss_lines (p # ps) = loss_lines ps"

fun is_factory_call :: "event \<Rightarrow> bool" where
  "is_factory_call (E_Sequential n) = True"
| "is_factory_call ev = False"

subsection \<open>Shape of a model\<close>

datatype layer = LinearLayer nat nat | ReLULayer

fun layer_of :: "'a module \<Rightarrow> layer" where
  "layer_of (Linear i k w b) = LinearLayer i k"
| "layer_of ReLU = ReLULayer"

definition param_signature :: "'a variable \<Rightarrow> nat list \<times> device \<times> bool" where
  "param_signature v = (dims (data v), dev (data v), requires_grad v)"

text \<open>The structure of a model: its layers, and shape, device and flag of each parameter.\<close>

definition model_signature :: "'a module list \<Rightarrow> layer list \<times> (nat list \<times> device \<times> bool) list" where
  "model_signature ms = (map layer_of ms, map param_signature (parameters ms))"

text \<open>
  The state with the components the loop writes blanked out: the calls, the printed
  lines, the model, and the names \<^verbatim>\<open>t\<close>, \<^verbatim>\<open>y_pred\<close> and \<^verbatim>\<open>loss\<close>.
\<close>

definition rest :: "('a, 'g) state \<Rightarrow> ('a, 'g) state" where
  "rest s = s\<lparr>trace := [], stdout := [], py_model := None, py_t := None, py_y_pred := None,
              py_loss := None\<rparr>"

definition frame :: "('a, 'g) state \<Rightarrow> ('a, 'g) state \<Rightarrow> bool" where
  "frame s s' = (rest s' = rest s
      \<and> map_option model_signature (py_model s') = map_option model_signature (py_model s))"

subsection \<open>Gradient descent\<close>

text \<open>Element by element, \<open>d - g * lr\<close>.\<close>

definition sgd_data :: "('a, 'g) lib \<Rightarrow> 'a \<Rightarrow> 'a tensor \<Rightarrow> 'a tensor \<Rightarrow> 'a tensor" where
  "sgd_data L lr d g = d\<lparr>elems := map2 (\<lambda>a b. fsub L a (fmul L b lr)) (elems d) (elems g)\<rparr>"

definition updated :: "('a, 'g) lib \<Rightarrow> 'a \<Rightarrow> 'a variable \<Rightarrow> 'a variable" where
  "updated L lr v = (case grad v of None \<Rightarrow> v | Some g \<Rightarrow> v\<lparr>data := sgd_data L lr (data v) g\<rparr>)"

definition updatable :: "'a variable \<Rightarrow> bool" where
  "updatable v =
     (case grad v of None \<Rightarrow> False | Some g \<Rightarrow> dev (data v) = dev g \<and> dims (data v) = dims g)"

definition model_update :: "('a, 'g) lib \<Rightarrow> 'a \<Rightarrow> 'a module list \<Rightarrow> 'a module list" where
  "model_update L lr m = set_parameters m (map (updated L lr) (parameters m))"

text \<open>The loss value that the criterion returns for the output \<open>out\<close> of the model.\<close>

definition loss_of :: "('a, 'g) lib \<Rightarrow> bool \<Rightarrow> 'a module list \<Rightarrow> 'a variable \<Rightarrow> 'a variable \<Rightarrow> 'a tensor \<Rightarrow> 'a loss_value" where
  "loss_of L sa m x y out =
     \<lparr>loss_data = \<lparr>dims = [1], dev = dev out,
                    elems = [if sa
                             then fdiv L (total L (squared_errors L (elems out) (elems (data y))))
                                    (of_int_f L (int (length (squared_errors L (elems out) (elems (data y))))))
                             else total L (squared_errors L (elems out) (elems (data y)))]\<rparr>,
      loss_pred = \<lparr>pred_data = out, pred_modules = m, pred_input = x\<rparr>,
      loss_target = y, loss_size_average = sa\<rparr>"

subsection \<open>States in which the loop can run\<close>

definition grad_ok :: "'a variable \<Rightarrow> bool" where
  "grad_ok v =
     (case grad v of
        None \<Rightarrow> True
      | Some g \<Rightarrow> dims g = dims (data v) \<and> dev g = dev (data v)
                  \<and> length (elems g) = length (elems (data v)))"

definition param_ok :: "device \<Rightarrow> 'a variable \<Rightarrow> bool" where
  "param_ok d v = (requires_grad v \<and> dev (data v) = d \<and> grad_ok v)"

text \<open>The layers fit one another, from \<open>i\<close> input features on, on device \<open>d\<close>.\<close>

fun chain_ok :: "device \<Rightarrow> nat \<Rightarrow> 'a module list \<Rightarrow> bool" where
  "chain_ok d i [] = True"
| "chain_ok d i (Linear i' k w b # ms) =
     (i = i' \<and> param_ok d w \<and> param_ok d b \<and> length (elems (data b)) = k \<and> chain_ok d k ms)"
| "chain_ok d i (ReLU # ms) = chain_ok d i ms"

fun out_features :: "nat \<Rightarrow> 'a module list \<Rightarrow> nat" where
  "out_features i [] = i"
| "out_features i (Linear i' k w b # ms) = out_features k ms"
| "out_features i (ReLU # ms) = out_features i ms"

definition trainable :: "('a, 'g) state \<Rightarrow> bool" where
  "trainable s =
     (case py_model s of None \<Rightarrow> False | Some m \<Rightarrow>
      case py_x s of None \<Rightarrow> False | Some x \<Rightarrow>
      case py_y s of None \<Rightarrow> False | Some y \<Rightarrow>
      case py_loss_fn s of None \<Rightarrow> False | Some f \<Rightarrow>
      case py_learning_rate s of None \<Rightarrow> False | Some lr \<Rightarrow>
        dims (data x) \<noteq> [] \<and> length (elems (data x)) = numel (dims (data x))
        \<and> chain_ok (dev (data x)) (last (dims (data x))) m
        \<and> \<not> requires_grad y \<and> dev (data y) = dev (data x)
        \<and> dims (data y) = butlast (dims (data x)) @ [out_features (last (dims (data x))) m])"

subsection \<open>A concrete library and two machines\<close>

text \<open>
  An instance of the library's parameters with exact arithmetic on the reals, a counter
  as generator and a constant in place of the derivative.  It serves to run the model on
  concrete inputs; no general theorem depends on it.
\<close>

definition test_lib :: "(real, nat) lib" where
  "test_lib =
     \<lparr>fadd = (+), fsub = (-), fmul = (*), fdiv = (/), fzero = 0, frelu = max 0,
      of_int_f = of_int,
      float_lit = (\<lambda>m k. if 0 \<le> k then of_int m * 10 ^ nat k else of_int m / 10 ^ nat (- k)),
      uninit = 0,
      normal = (\<lambda>g. (real g, Suc g)),
      uniform = (\<lambda>n g. (1 / real (Suc n), Suc g)),
      autograd = (\<lambda>l p j. 1)\<rparr>"

definition jetson :: env where
  "jetson = \<lparr>torch_installed = True, cuda_available = True, torch_version = ''0.3.0b0+af3964a''\<rparr>"

definition cpu_only :: env where
  "cpu_only = \<lparr>torch_installed = True, cuda_available = False, torch_version = ''0.3.0b0+af3964a''\<rparr>"

definition no_torch :: env where
  "no_torch = \<lparr>torch_installed = False, cuda_available = False, torch_version = []\<rparr>"

section \<open>Lemmas\<close>

lemma exec_seq_append:
  "exec_seq (fs @ gs) s = (case exec_seq fs s of Inl err \<Rightarrow> Inl err | Inr s' \<Rightarrow> exec_seq gs s')"
  by (induction fs arbitrary: s) (auto split: sum.splits)

lemma for_each_append:
  "for_each body (us @ vs) s = (case for_each body us s of Inl err \<Rightarrow> Inl err | Inr s' \<Rightarrow> for_each body vs s')"
  by (induction us arbitrary: s) (auto split: sum.splits)

lemma draws_length: "draws f n g = (vs, g') \<Longrightarrow> length vs = n"
  by (induction n arbitrary: g vs g') (auto split: prod.splits)

lemma length_draws: "length (fst (draws f n g)) = n"
  by (metis draws_length prod.collapse)

lemma parameters_Cons:
  "parameters (m # ms) = module_parameters m @ parameters ms"
  by (simp add: parameters_def)

lemma parameters_Nil: "parameters [] = []"
  by (simp add: parameters_def)

lemma parameters_set_parameters:
  "length vs = length (parameters ms) \<Longrightarrow> parameters (set_parameters ms vs) = vs"
proof (induction ms vs rule: set_parameters.induct)
  case (1 vs)
  then show ?case by (simp add: parameters_Nil)
next
  case (2 i k w b ms vs)
  then show ?case
    by (cases vs; cases "tl vs") (auto simp: parameters_Cons)
next
  case (3 ms vs)
  then show ?case by (simp add: parameters_Cons)
qed

lemma set_parameters_same: "set_parameters ms (parameters ms) = ms"
  by (induction ms "parameters ms" rule: set_parameters.induct) (auto simp: parameters_Cons parameters_Nil)

lemma length_matrix_rows: "length (matrix_rows n w xs) = n"
  by (simp add: matrix_rows_def)

lemma length_concat_const:
  "(\<And>x. x \<in> set xs \<Longrightarrow> length (f x) = k) \<Longrightarrow> length (concat (map f xs)) = length xs * k"
  by (induction xs) auto

lemma module_forward_ok:
  assumes "dims t \<noteq> []" "length (elems t) = numel (dims t)"
  shows "chain_ok (dev t) (last (dims t)) (m # ms) \<Longrightarrow>
     \<exists>out. module_forward L m t = Inr out \<and> dims out = butlast (dims t) @ [out_features (last (dims t)) [m]]
        \<and> dev out = dev t \<and> length (elems out) = numel (dims out)
        \<and> chain_ok (dev t) (out_features (last (dims t)) [m]) ms"
proof (cases m)
  case (Linear i k w b)
  assume c: "chain_ok (dev t) (last (dims t)) (m # ms)"
  with Linear have eq: "last (dims t) = i" "dev (data w) = dev t" "dev (data b) = dev t"
     "length (elems (data b)) = k" "chain_ok (dev t) k ms"
    by (auto simp: param_ok_def)
  show ?thesis using assms eq Linear
    by (simp add: numel_def length_concat_const length_matrix_rows)
next
  case ReLU
  assume c: "chain_ok (dev t) (last (dims t)) (m # ms)"
  then show ?thesis using assms ReLU by simp
qed

lemma sequential_forward_ok:
  "dims t \<noteq> [] \<Longrightarrow> length (elems t) = numel (dims t) \<Longrightarrow> chain_ok (dev t) (last (dims t)) ms \<Longrightarrow>
     \<exists>out. sequential_forward L ms t = Inr out
        \<and> dims out = butlast (dims t) @ [out_features (last (dims t)) ms]
        \<and> dev out = dev t \<and> length (elems out) = numel (dims out)"
proof (induction ms arbitrary: t)
  case Nil
  then show ?case by simp
next
  case (Cons m ms)
  from module_forward_ok[OF Cons.prems(1,2,3), of L]
  obtain out where o: "module_forward L m t = Inr out"
     "dims out = butlast (dims t) @ [out_features (last (dims t)) [m]]"
     "dev out = dev t" "length (elems out) = numel (dims out)"
     "chain_ok (dev t) (out_features (last (dims t)) [m]) ms" by blast
  have "dims out \<noteq> []" using o(2) by simp
  moreover have "last (dims out) = out_features (last (dims t)) [m]" using o(2) by simp
  ultimately obtain out' where o': "sequential_forward L ms out = Inr out'"
      "dims out' = butlast (dims out) @ [out_features (last (dims out)) ms]"
      "dev out' = dev out" "length (elems out') = numel (dims out')"
    using Cons.IH[of out] o by auto
  have "out_features (last (dims t)) (m # ms) = out_features (out_features (last (dims t)) [m]) ms"
    by (cases m) auto
  then show ?case using o o' by simp
qed

lemma out_features_set_parameters:
  "out_features i (set_parameters ms vs) = out_features i ms"
  by (induction ms vs arbitrary: i rule: set_parameters.induct) (auto split: list.splits)

lemma set_parameters_twice:
  "length us = length (parameters ms) \<Longrightarrow> length vs = length (parameters ms) \<Longrightarrow>
   set_parameters (set_parameters ms us) vs = set_parameters ms vs"
proof (induction ms us arbitrary: vs rule: set_parameters.induct)
  case (1 us)
  then show ?case by simp
next
  case (2 i k w b ms us)
  then show ?case
    by (cases us; cases "tl us"; cases vs; cases "tl vs") (auto simp: parameters_Cons)
next
  case (3 ms us)
  then show ?case by (simp add: parameters_Cons)
qed

lemma chain_ok_parameters:
  "chain_ok d i ms \<Longrightarrow> list_all (param_ok d) (parameters ms)"
  by (induction d i ms rule: chain_ok.induct) (auto simp: parameters_Cons parameters_Nil)

lemma chain_ok_set_parameters:
  "list_all2 (\<lambda>v v'. param_ok d v' \<and> length (elems (data v')) = length (elems (data v))) (parameters ms) vs \<Longrightarrow>
   chain_ok d i ms \<Longrightarrow> chain_ok d i (set_parameters ms vs)"
proof (induction ms vs arbitrary: i rule: set_parameters.induct)
  case (1 vs)
  then show ?case by simp
next
  case (2 j k w b ms vs)
  from "2.prems"(1) obtain w' b' rest where vs: "vs = w' # b' # rest"
    by (auto simp: parameters_Cons list_all2_Cons1)
  show ?case using 2 vs by (auto simp: parameters_Cons)
next
  case (3 ms vs)
  then show ?case by (simp add: parameters_Cons)
qed

lemma list_all2_map_same:
  "list_all P xs \<Longrightarrow> (\<And>x. P x \<Longrightarrow> R x (f x)) \<Longrightarrow> list_all2 R xs (map f xs)"
  by (induction xs) auto

lemma list_all2_map_indexed:
  "list_all P xs \<Longrightarrow> (\<And>p x. P x \<Longrightarrow> R x (f p x)) \<Longrightarrow>
   list_all2 R xs (map (\<lambda>(p, x). f p x) (zip [j..<j + length xs] xs))"
proof (induction xs arbitrary: j)
  case Nil
  then show ?case by simp
next
  case (Cons x xs)
  have "[j..<j + length (x # xs)] = j # [Suc j..<Suc j + length xs]"
    using upt_conv_Cons[of j "j + length (x # xs)"] by simp
  then show ?case using Cons.prems Cons.IH[of "Suc j"] by simp
qed

lemma variable_zero_grad_ok:
  "param_ok d v \<Longrightarrow> param_ok d (variable_zero_grad L v) \<and>
     length (elems (data (variable_zero_grad L v))) = length (elems (data v))"
  by (auto simp: param_ok_def grad_ok_def variable_zero_grad_def zero_fill_def split: option.splits)

lemma accumulate_grad_ok:
  "param_ok d v \<Longrightarrow> param_ok d (accumulate_grad L l p v) \<and> grad (accumulate_grad L l p v) \<noteq> None \<and>
     length (elems (data (accumulate_grad L l p v))) = length (elems (data v))"
  by (auto simp: param_ok_def grad_ok_def accumulate_grad_def gradient_of_def split: option.splits)

lemma model_zero_grad_ok:
  assumes "chain_ok d i ms"
  shows "chain_ok d i (model_zero_grad L ms)" "out_features i (model_zero_grad L ms) = out_features i ms"
    "length (parameters (model_zero_grad L ms)) = length (parameters ms)"
proof -
  have "list_all2 (\<lambda>v v'. param_ok d v' \<and> length (elems (data v')) = length (elems (data v)))
          (parameters ms) (map (variable_zero_grad L) (parameters ms))"
    by (rule list_all2_map_same[OF chain_ok_parameters[OF assms]]) (simp add: variable_zero_grad_ok)
  then show "chain_ok d i (model_zero_grad L ms)"
    unfolding model_zero_grad_def using assms by (rule chain_ok_set_parameters)
  show "out_features i (model_zero_grad L ms) = out_features i ms"
    by (simp add: model_zero_grad_def out_features_set_parameters)
  show "length (parameters (model_zero_grad L ms)) = length (parameters ms)"
    by (simp add: model_zero_grad_def parameters_set_parameters)
qed

lemma model_backward_ok:
  assumes "chain_ok d i ms"
  shows "chain_ok d i (model_backward L l ms)" "out_features i (model_backward L l ms) = out_features i ms"
    "length (parameters (model_backward L l ms)) = length (parameters ms)"
    "list_all updatable (parameters (model_backward L l ms))"
proof -
  let ?vs = "map (\<lambda>(p, v). accumulate_grad L l p v) (zip [0..<length (parameters ms)] (parameters ms))"
  have a: "list_all2 (\<lambda>v v'. param_ok d v' \<and> grad v' \<noteq> None \<and> length (elems (data v')) = length (elems (data v)))
          (parameters ms) ?vs"
    using list_all2_map_indexed[OF chain_ok_parameters[OF assms],
        where j = 0 and f = "accumulate_grad L l"
          and R = "\<lambda>v v'. param_ok d v' \<and> grad v' \<noteq> None \<and> length (elems (data v')) = length (elems (data v))"]
    by (simp add: accumulate_grad_ok)
  then have "list_all2 (\<lambda>v v'. param_ok d v' \<and> length (elems (data v')) = length (elems (data v)))
          (parameters ms) ?vs"
    by (rule list_all2_mono) simp
  then show "chain_ok d i (model_backward L l ms)"
    unfolding model_backward_def using assms by (rule chain_ok_set_parameters)
  show "out_features i (model_backward L l ms) = out_features i ms"
    by (simp add: model_backward_def out_features_set_parameters)
  have len: "length ?vs = length (parameters ms)" by simp
  have p: "parameters (model_backward L l ms) = ?vs"
    unfolding model_backward_def by (rule parameters_set_parameters[OF len])
  show "length (parameters (model_backward L l ms)) = length (parameters ms)"
    using p len by simp
  have "list_all (\<lambda>v'. param_ok d v' \<and> grad v' \<noteq> None) ?vs"
    using a unfolding list_all_length list_all2_conv_all_nth by auto
  then have "list_all updatable ?vs"
    by (rule list.pred_mono_strong) (auto simp: updatable_def param_ok_def grad_ok_def split: option.splits)
  then show "list_all updatable (parameters (model_backward L l ms))" using p by simp
qed

lemma map2_map_right: "map2 f xs (map h ys) = map2 (\<lambda>a b. f a (h b)) xs ys"
  by (induction xs arbitrary: ys) (auto simp: zip_Cons1 split: list.splits)

lemma stmt_update_ok:
  assumes "py_model s = Some m" "py_learning_rate s = Some lr" "p < length (parameters m)"
    "updatable (parameters m ! p)"
  shows "stmt_update L p s =
     Inr (s\<lparr>trace := trace s @ [E_update p],
            py_model := Some (set_parameters m ((parameters m)[p := updated L lr (parameters m ! p)]))\<rparr>)"
proof -
  from assms(4) obtain g where g: "grad (parameters m ! p) = Some g"
      "dev (data (parameters m ! p)) = dev g" "dims (data (parameters m ! p)) = dims g"
    by (auto simp: updatable_def split: option.splits)
  have "tensor_isub L (data (parameters m ! p)) (tensor_rmul L lr g) =
          Inr (sgd_data L lr (data (parameters m ! p)) g)"
    using g by (simp add: tensor_isub_def tensor_rmul_def sgd_data_def map2_map_right)
  then show ?thesis using assms(1,2,3) g(1)
    by (simp add: stmt_update_def updated_def call_def Let_def)
qed

lemma update_loop_ok:
  assumes "py_model s = Some m" "py_learning_rate s = Some lr" "j \<le> length (parameters m)"
    "list_all updatable (drop j (parameters m))"
  shows "for_each (stmt_update L) [j..<length (parameters m)] s =
     Inr (s\<lparr>trace := trace s @ map E_update [j..<length (parameters m)],
            py_model := Some (set_parameters m
               (take j (parameters m) @ map (updated L lr) (drop j (parameters m))))\<rparr>)"
  using assms
proof (induction "length (parameters m) - j" arbitrary: j s m)
  case 0
  then show ?case by (simp add: set_parameters_same)
next
  case (Suc d)
  let ?ps = "parameters m"
  let ?u = "updated L lr (?ps ! j)"
  let ?m1 = "set_parameters m (?ps[j := ?u])"
  let ?s1 = "s\<lparr>trace := trace s @ [E_update j], py_model := Some ?m1\<rparr>"
  from Suc.hyps(2) have jlt: "j < length ?ps" by simp
  have dr: "drop j ?ps = ?ps ! j # drop (Suc j) ?ps"
    using jlt by (simp add: Cons_nth_drop_Suc)
  have upd: "updatable (?ps ! j)" "list_all updatable (drop (Suc j) ?ps)"
    using Suc.prems(4) dr by simp_all
  have step: "stmt_update L j s = Inr ?s1"
    by (rule stmt_update_ok[OF Suc.prems(1,2) jlt upd(1)])
  have p1: "parameters ?m1 = ?ps[j := ?u]"
    by (rule parameters_set_parameters) simp
  have ih: "for_each (stmt_update L) [Suc j..<length (parameters ?m1)] ?s1 =
     Inr (?s1\<lparr>trace := trace ?s1 @ map E_update [Suc j..<length (parameters ?m1)],
            py_model := Some (set_parameters ?m1
               (take (Suc j) (parameters ?m1) @ map (updated L lr) (drop (Suc j) (parameters ?m1))))\<rparr>)"
  proof (rule Suc.hyps(1))
    show "d = length (parameters ?m1) - Suc j" using Suc.hyps(2) p1 by simp
    show "py_model ?s1 = Some ?m1" by simp
    show "py_learning_rate ?s1 = Some lr" using Suc.prems(2) by simp
    show "Suc j \<le> length (parameters ?m1)" using jlt p1 by simp
    show "list_all updatable (drop (Suc j) (parameters ?m1))" using upd(2) p1 by simp
  qed
  have lists: "take (Suc j) (?ps[j := ?u]) @ map (updated L lr) (drop (Suc j) (?ps[j := ?u]))
       = take j ?ps @ map (updated L lr) (drop j ?ps)"
    using jlt dr by (simp add: take_Suc_conv_app_nth)
  have sp: "set_parameters ?m1 (take j ?ps @ map (updated L lr) (drop j ?ps))
      = set_parameters m (take j ?ps @ map (updated L lr) (drop j ?ps))"
    by (rule set_parameters_twice) (use jlt in simp_all)
  have "[j..<length ?ps] = j # [Suc j..<length ?ps]"
    using jlt by (simp add: upt_conv_Cons)
  then show ?case using step ih p1 lists sp by simp
qed

lemma updated_ok:
  "param_ok d v \<Longrightarrow> param_ok d (updated L lr v) \<and>
     length (elems (data (updated L lr v))) = length (elems (data v))"
  by (auto simp: param_ok_def grad_ok_def updated_def sgd_data_def split: option.splits)

lemma model_update_ok:
  assumes "chain_ok d i ms"
  shows "chain_ok d i (model_update L lr ms)" "out_features i (model_update L lr ms) = out_features i ms"
    "parameters (model_update L lr ms) = map (updated L lr) (parameters ms)"
proof -
  have "list_all2 (\<lambda>v v'. param_ok d v' \<and> length (elems (data v')) = length (elems (data v)))
          (parameters ms) (map (updated L lr) (parameters ms))"
    by (rule list_all2_map_same[OF chain_ok_parameters[OF assms]]) (simp add: updated_ok)
  then show "chain_ok d i (model_update L lr ms)"
    unfolding model_update_def using assms by (rule chain_ok_set_parameters)
  show "out_features i (model_update L lr ms) = out_features i ms"
    by (simp add: model_update_def out_features_set_parameters)
  show "parameters (model_update L lr ms) = map (updated L lr) (parameters ms)"
    by (simp add: model_update_def parameters_set_parameters)
qed

lemma iteration_ok:
  assumes tr: "trainable s"
    and m: "py_model s = Some m" and x: "py_x s = Some x" and y: "py_y s = Some y"
    and f: "py_loss_fn s = Some (MSELoss sa)" and lr: "py_learning_rate s = Some lr"
  shows "\<exists>out. sequential_forward L m (data x) = Inr out \<and> dims out = dims (data y)
           \<and> dev out = dev (data y)
           \<and> length (elems out) = numel (dims (data y))
           \<and> iteration L t s =
               Inr (s\<lparr>trace := trace s @ [E_forward, E_loss_fn, E_print, E_zero_grad, E_backward, E_parameters]
                                @ map E_update [0..<length (parameters m)],
                      stdout := stdout s @ [Out_loss t (hd (elems (loss_data (loss_of L sa m x y out))))],
                      py_model := Some (model_update L lr
                                          (model_backward L (loss_of L sa m x y out) (model_zero_grad L m))),
                      py_t := Some t,
                      py_y_pred := Some \<lparr>pred_data = out, pred_modules = m, pred_input = x\<rparr>,
                      py_loss := Some (loss_of L sa m x y out)\<rparr>)"
proof -
  from tr m x y f lr have wf: "dims (data x) \<noteq> []" "length (elems (data x)) = numel (dims (data x))"
      "chain_ok (dev (data x)) (last (dims (data x))) m" "\<not> requires_grad y"
      "dev (data y) = dev (data x)"
      "dims (data y) = butlast (dims (data x)) @ [out_features (last (dims (data x))) m]"
    by (simp_all add: trainable_def)
  from sequential_forward_ok[OF wf(1,2,3), of L] obtain out where
    out: "sequential_forward L m (data x) = Inr out"
      "dims out = butlast (dims (data x)) @ [out_features (last (dims (data x))) m]"
      "dev out = dev (data x)" "length (elems out) = numel (dims out)"
    by blast
  let ?p = "\<lparr>pred_data = out, pred_modules = m, pred_input = x\<rparr>"
  let ?l = "loss_of L sa m x y out"
  let ?m1 = "model_zero_grad L m"
  let ?m2 = "model_backward L ?l ?m1"
  let ?s0 = "s\<lparr>py_t := Some t\<rparr>"
  let ?s1 = "?s0\<lparr>trace := trace s @ [E_forward], py_y_pred := Some ?p\<rparr>"
  let ?s2 = "?s1\<lparr>trace := trace s @ [E_forward, E_loss_fn], py_loss := Some ?l\<rparr>"
  let ?s3 = "?s2\<lparr>trace := trace s @ [E_forward, E_loss_fn, E_print],
                  stdout := stdout s @ [Out_loss t (hd (elems (loss_data ?l)))]\<rparr>"
  let ?s4 = "?s3\<lparr>trace := trace s @ [E_forward, E_loss_fn, E_print, E_zero_grad], py_model := Some ?m1\<rparr>"
  let ?s5 = "?s4\<lparr>trace := trace s @ [E_forward, E_loss_fn, E_print, E_zero_grad, E_backward],
                  py_model := Some ?m2\<rparr>"
  let ?s5' = "call E_parameters ?s5"
  have crit: "criterion_call L (MSELoss sa) ?p y = Inr ?l"
    using wf(4,5,6) out(2,3) by (simp add: mse_loss_def loss_of_def Let_def)
  have c1: "chain_ok (dev (data x)) (last (dims (data x))) ?m1"
    by (rule model_zero_grad_ok(1)[OF wf(3)])
  have n1: "length (parameters ?m1) = length (parameters m)"
    by (rule model_zero_grad_ok(3)[OF wf(3)])
  have n2: "length (parameters ?m2) = length (parameters m)"
    using model_backward_ok(3)[OF c1, of L ?l] n1 by simp
  have u2: "list_all updatable (parameters ?m2)"
    by (rule model_backward_ok(4)[OF c1])
  have st1: "stmt_forward L ?s0 = Inr ?s1"
    using m x out(1) by (simp add: stmt_forward_def call_def)
  have st2: "stmt_loss L ?s1 = Inr ?s2"
    using f y crit by (simp add: stmt_loss_def call_def)
  have st3: "stmt_print_loss ?s2 = Inr ?s3"
    by (simp add: stmt_print_loss_def print_def loss_of_def)
  have st4: "stmt_zero_grad L ?s3 = Inr ?s4"
    using m by (simp add: stmt_zero_grad_def call_def)
  have st5: "stmt_backward L ?s4 = Inr ?s5"
    by (simp add: stmt_backward_def call_def)
  have loop: "for_each (stmt_update L) [0..<length (parameters ?m2)] ?s5' =
     Inr (?s5'\<lparr>trace := trace ?s5' @ map E_update [0..<length (parameters ?m2)],
            py_model := Some (set_parameters ?m2
               (take 0 (parameters ?m2) @ map (updated L lr) (drop 0 (parameters ?m2))))\<rparr>)"
    by (rule update_loop_ok) (use lr u2 in \<open>simp_all add: call_def\<close>)
  have sp: "set_parameters ?m2 (map (updated L lr) (parameters ?m2)) = model_update L lr ?m2"
    by (simp add: model_update_def)
  have st6: "stmt_update_all L ?s5 =
     Inr (?s5\<lparr>trace := trace s @ [E_forward, E_loss_fn, E_print, E_zero_grad, E_backward, E_parameters]
                                @ map E_update [0..<length (parameters m)],
              py_model := Some (model_update L lr ?m2)\<rparr>)"
    using loop sp n2 by (simp add: stmt_update_all_def call_def)
  have "iteration L t s =
     Inr (?s5\<lparr>trace := trace s @ [E_forward, E_loss_fn, E_print, E_zero_grad, E_backward, E_parameters]
                                @ map E_update [0..<length (parameters m)],
              py_model := Some (model_update L lr ?m2)\<rparr>)"
    unfolding iteration_def loop_body_def using st1 st2 st3 st4 st5 st6 by simp
  moreover have "dims out = dims (data y)" using out(2) wf(6) by simp
  moreover have "dev out = dev (data y)" using out(3) wf(5) by simp
  moreover have "length (elems out) = numel (dims (data y))" using out(4) out(2) wf(6) by simp
  ultimately show ?thesis using out(1) by simp
qed

lemmas stmt_defs = stmt_import_torch_def stmt_print_version_def stmt_print_cuda_available_def
  stmt_a_def stmt_print_a_def stmt_b_def stmt_print_b_def stmt_c_def stmt_print_c_def
  stmt_use_cuda_def stmt_FloatTensor_def stmt_LongTensor_def stmt_ByteTensor_def stmt_Tensor_def
  stmt_set_default_def stmt_d_def stmt_print_d_def stmt_import_nn_def stmt_import_Variable_def
  stmt_sizes_def stmt_x_def stmt_y_def stmt_print_x_def stmt_model_def stmt_model_cuda_def
  stmt_print_model_def stmt_loss_fn_def stmt_learning_rate_def

lemmas lib_defs = new_tensor_def tensor_of_rows_def zero_fill_def randn_def to_cuda_def tensor_add_def
  Variable_def new_linear_def device_ready_def class_for_def call_def print_def raise_def

lemma loss_lines_append: "loss_lines (ps @ qs) = loss_lines ps @ loss_lines qs"
  by (induction ps rule: loss_lines.induct) auto

lemma frame_refl: "frame s s"
  by (simp add: frame_def)

lemma frame_trans: "frame s s1 \<Longrightarrow> frame s1 s2 \<Longrightarrow> frame s s2"
  by (simp add: frame_def)

lemma layers_set_parameters: "map layer_of (set_parameters ms vs) = map layer_of ms"
  by (induction ms vs rule: set_parameters.induct) (auto split: list.splits)

lemma model_signature_set_parameters:
  "map param_signature vs = map param_signature (parameters ms) \<Longrightarrow>
   model_signature (set_parameters ms vs) = model_signature ms"
proof -
  assume a: "map param_signature vs = map param_signature (parameters ms)"
  then have "length vs = length (parameters ms)" by (rule map_eq_imp_length_eq)
  then have "parameters (set_parameters ms vs) = vs" by (rule parameters_set_parameters)
  then show ?thesis using a by (simp add: model_signature_def layers_set_parameters)
qed

lemma signature_zero_grad: "param_signature (variable_zero_grad L v) = param_signature v"
  by (simp add: param_signature_def variable_zero_grad_def)

lemma signature_accumulate: "param_signature (accumulate_grad L l p v) = param_signature v"
  by (simp add: param_signature_def accumulate_grad_def split: option.splits)

lemma map_indexed_signature:
  "(\<And>p x. h (f p x) = h x) \<Longrightarrow> map h (map (\<lambda>(p, x). f p x) (zip [j..<j + length xs] xs)) = map h xs"
proof (induction xs arbitrary: j)
  case Nil
  then show ?case by simp
next
  case (Cons x xs)
  have "[j..<j + length (x # xs)] = j # [Suc j..<Suc j + length xs]"
    using upt_conv_Cons[of j "j + length (x # xs)"] by simp
  then show ?case using Cons.prems Cons.IH[of "Suc j"] by simp
qed

lemma model_signature_zero_grad: "model_signature (model_zero_grad L ms) = model_signature ms"
  unfolding model_zero_grad_def
  by (rule model_signature_set_parameters) (simp add: signature_zero_grad)

lemma model_signature_backward: "model_signature (model_backward L l ms) = model_signature ms"
  unfolding model_backward_def
  by (rule model_signature_set_parameters)
     (use map_indexed_signature[where h = param_signature and f = "accumulate_grad L l" and j = 0
           and xs = "parameters ms"] in \<open>simp add: signature_accumulate\<close>)

lemma frame_forward: "stmt_forward L s = Inr s' \<Longrightarrow> frame s s'"
  by (auto simp: stmt_forward_def frame_def rest_def call_def raise_def Let_def
      split: option.splits sum.splits)

lemma frame_loss: "stmt_loss L s = Inr s' \<Longrightarrow> frame s s'"
  by (auto simp: stmt_loss_def frame_def rest_def call_def raise_def Let_def
      split: option.splits sum.splits)

lemma frame_print_loss: "stmt_print_loss s = Inr s' \<Longrightarrow> frame s s'"
  by (auto simp: stmt_print_loss_def frame_def rest_def print_def raise_def
      split: option.splits list.splits)

lemma frame_zero_grad: "stmt_zero_grad L s = Inr s' \<Longrightarrow> frame s s'"
  by (auto simp: stmt_zero_grad_def frame_def rest_def call_def raise_def model_signature_zero_grad
      split: option.splits)

lemma frame_backward: "stmt_backward L s = Inr s' \<Longrightarrow> frame s s'"
  by (auto simp: stmt_backward_def frame_def rest_def call_def raise_def model_signature_backward
      split: option.splits)

lemma tensor_isub_shape: "tensor_isub L a r = Inr d \<Longrightarrow> dims d = dims a \<and> dev d = dev a"
  by (auto simp: tensor_isub_def split: if_splits)

lemma frame_update: "stmt_update L p s = Inr s' \<Longrightarrow> frame s s'"
proof -
  assume a: "stmt_update L p s = Inr s'"
  then obtain m where m: "py_model s = Some m"
    by (auto simp: stmt_update_def raise_def split: option.splits)
  from a m have p: "p < length (parameters m)"
    by (auto simp: stmt_update_def raise_def split: if_splits)
  from a m p obtain lr g d where isub: "tensor_isub L (data (parameters m ! p)) (tensor_rmul L lr g) = Inr d"
    and d3: "s' = (call (E_update p) s)\<lparr>py_model := Some (set_parameters m ((parameters m)[p := (parameters m ! p)\<lparr>data := d\<rparr>]))\<rparr>"
    by (auto simp: stmt_update_def raise_def Let_def split: option.splits sum.splits)
  have d: "dims d = dims (data (parameters m ! p))" "dev d = dev (data (parameters m ! p))"
    using tensor_isub_shape[OF isub] by simp_all
  have "param_signature ((parameters m ! p)\<lparr>data := d\<rparr>) = param_signature (parameters m ! p)"
    using d(1,2) by (simp add: param_signature_def)
  moreover have "(map param_signature (parameters m))[p := param_signature (parameters m ! p)]
      = map param_signature (parameters m)"
    using p by (metis list_update_id nth_map)
  ultimately have "map param_signature ((parameters m)[p := (parameters m ! p)\<lparr>data := d\<rparr>]) = map param_signature (parameters m)"
    by (simp add: map_update)
  then have "model_signature (set_parameters m ((parameters m)[p := (parameters m ! p)\<lparr>data := d\<rparr>])) = model_signature m"
    by (rule model_signature_set_parameters)
  then show ?thesis using d3 m by (simp add: frame_def rest_def call_def)
qed

lemma frame_for_each:
  "(\<And>v s s'. body v s = Inr s' \<Longrightarrow> frame s s') \<Longrightarrow> for_each body vs s = Inr s' \<Longrightarrow> frame s s'"
proof (induction vs arbitrary: s)
  case Nil
  then show ?case by (simp add: frame_refl)
next
  case (Cons v vs)
  from Cons.prems(2) obtain s1 where s1: "body v s = Inr s1" "for_each body vs s1 = Inr s'"
    by (auto split: sum.splits)
  show ?case using frame_trans[OF Cons.prems(1)[OF s1(1)] Cons.IH[OF Cons.prems(1) s1(2)]] .
qed

lemma frame_update_all: "stmt_update_all L s = Inr s' \<Longrightarrow> frame s s'"
proof -
  assume a: "stmt_update_all L s = Inr s'"
  then obtain m where m: "py_model s = Some m"
     "for_each (stmt_update L) [0..<length (parameters m)] (call E_parameters s) = Inr s'"
    by (auto simp: stmt_update_all_def raise_def split: option.splits)
  have "frame s (call E_parameters s)" by (simp add: frame_def rest_def call_def)
  moreover have "frame (call E_parameters s) s'"
    using frame_for_each[of "stmt_update L", OF frame_update m(2)] .
  ultimately show ?thesis by (rule frame_trans)
qed

lemma frame_iteration: "iteration L t s = Inr s' \<Longrightarrow> frame s s'"
proof -
  assume a: "iteration L t s = Inr s'"
  let ?s0 = "s\<lparr>py_t := Some t\<rparr>"
  from a obtain s1 s2 s3 s4 s5 where st:
    "stmt_forward L ?s0 = Inr s1" "stmt_loss L s1 = Inr s2" "stmt_print_loss s2 = Inr s3"
    "stmt_zero_grad L s3 = Inr s4" "stmt_backward L s4 = Inr s5" "stmt_update_all L s5 = Inr s'"
    by (auto simp: iteration_def loop_body_def split: sum.splits)
  have "frame s ?s0" by (simp add: frame_def rest_def)
  then show ?thesis
    using frame_forward[OF st(1)] frame_loss[OF st(2)] frame_print_loss[OF st(3)]
      frame_zero_grad[OF st(4)] frame_backward[OF st(5)] frame_update_all[OF st(6)]
    by (meson frame_trans)
qed

lemma frame_loop: "for_each (iteration L) ts s = Inr s' \<Longrightarrow> frame s s'"
  using frame_for_each[of "iteration L", OF frame_iteration] .

lemma trainable_parts:
  assumes "trainable s"
  obtains m x y sa lr where "py_model s = Some m" "py_x s = Some x" "py_y s = Some y"
    "py_loss_fn s = Some (MSELoss sa)" "py_learning_rate s = Some lr"
proof -
  from assms obtain m x y f lr where p: "py_model s = Some m" "py_x s = Some x" "py_y s = Some y"
    "py_loss_fn s = Some f" "py_learning_rate s = Some lr"
    by (auto simp: trainable_def split: option.splits)
  obtain sa where "f = MSELoss sa" by (cases f)
  with p that show ?thesis by blast
qed

lemma iteration_step:
  assumes tr: "trainable s" and m: "py_model s = Some m"
  shows "\<exists>s' m' v. iteration L t s = Inr s' \<and> trainable s' \<and> py_model s' = Some m'
     \<and> length (parameters m') = length (parameters m)
     \<and> trace s' = trace s @ iteration_events (length (parameters m))
     \<and> stdout s' = stdout s @ [Out_loss t v]"
proof -
  from tr obtain m0 x y sa lr where p: "py_model s = Some m0" "py_x s = Some x" "py_y s = Some y"
    "py_loss_fn s = Some (MSELoss sa)" "py_learning_rate s = Some lr"
    by (rule trainable_parts)
  with m have p1: "py_model s = Some m" by simp
  from tr p1 p have wf: "chain_ok (dev (data x)) (last (dims (data x))) m"
      "dims (data x) \<noteq> []" "length (elems (data x)) = numel (dims (data x))" "\<not> requires_grad y"
      "dev (data y) = dev (data x)"
      "dims (data y) = butlast (dims (data x)) @ [out_features (last (dims (data x))) m]"
    by (simp_all add: trainable_def)
  from iteration_ok[OF tr p1 p(2,3,4,5), of L t] obtain out where
    it: "iteration L t s =
               Inr (s\<lparr>trace := trace s @ [E_forward, E_loss_fn, E_print, E_zero_grad, E_backward, E_parameters]
                                @ map E_update [0..<length (parameters m)],
                      stdout := stdout s @ [Out_loss t (hd (elems (loss_data (loss_of L sa m x y out))))],
                      py_model := Some (model_update L lr
                                          (model_backward L (loss_of L sa m x y out) (model_zero_grad L m))),
                      py_t := Some t,
                      py_y_pred := Some \<lparr>pred_data = out, pred_modules = m, pred_input = x\<rparr>,
                      py_loss := Some (loss_of L sa m x y out)\<rparr>)"
    by blast
  let ?l = "loss_of L sa m x y out"
  let ?m1 = "model_zero_grad L m"
  let ?m2 = "model_backward L ?l ?m1"
  let ?m3 = "model_update L lr ?m2"
  note c1 = model_zero_grad_ok[OF wf(1), of L]
  note c2 = model_backward_ok[OF c1(1), of L ?l]
  note c3 = model_update_ok[OF c2(1), of L lr]
  have len: "length (parameters ?m3) = length (parameters m)"
    using c3(3) c2(3) c1(3) by simp
  have outf: "out_features (last (dims (data x))) ?m3 = out_features (last (dims (data x))) m"
    using c3(2) c2(2) c1(2) by simp
  show ?thesis
    using it p wf c3(1) len outf by (simp add: trainable_def iteration_events_def)
qed

lemma train_loop_ok:
  assumes "trainable s" "py_model s = Some m"
  shows "\<exists>s' m'. for_each (iteration L) [j..<j + n] s = Inr s' \<and> trainable s' \<and> py_model s' = Some m'
     \<and> length (parameters m') = length (parameters m)
     \<and> trace s' = trace s @ concat (replicate n (iteration_events (length (parameters m))))
     \<and> map fst (loss_lines (stdout s')) = map fst (loss_lines (stdout s)) @ [j..<j + n]"
  using assms
proof (induction n arbitrary: j s m)
  case 0
  then show ?case by simp
next
  case (Suc n)
  from iteration_step[OF Suc.prems, of L j] obtain s1 m1 v where
    s1: "iteration L j s = Inr s1" "trainable s1" "py_model s1 = Some m1"
      "length (parameters m1) = length (parameters m)"
      "trace s1 = trace s @ iteration_events (length (parameters m))"
      "stdout s1 = stdout s @ [Out_loss j v]"
    by blast
  from Suc.IH[OF s1(2,3), of "Suc j"] obtain s' m' where
    s': "for_each (iteration L) [Suc j..<Suc j + n] s1 = Inr s'" "trainable s'" "py_model s' = Some m'"
      "length (parameters m') = length (parameters m1)"
      "trace s' = trace s1 @ concat (replicate n (iteration_events (length (parameters m1))))"
      "map fst (loss_lines (stdout s')) = map fst (loss_lines (stdout s1)) @ [Suc j..<Suc j + n]"
    by blast
  have up: "[j..<j + Suc n] = j # [Suc j..<Suc j + n]"
    using upt_conv_Cons[of j "j + Suc n"] by simp
  show ?case
    using s1 s' up by (simp add: loss_lines_append)
qed

lemma script_split:
  "script L e g =
     (case exec_seq (setup_stmts L e) (initial_state g) of Inl err \<Rightarrow> Inl err | Inr s \<Rightarrow> stmt_train L s)"
proof -
  have "concat (cells L e) = setup_stmts L e @ [stmt_train L]"
    by (simp add: cells_def setup_stmts_def)
  then show ?thesis
    by (simp add: script_def exec_seq_append split: sum.splits)
qed

lemma setup_state:
  assumes "torch_installed e" "cuda_available e"
  shows "\<exists>s w1 b1 w2 b2 d.
       exec_seq (setup_stmts L e) (initial_state g) = Inr s
     \<and> trace s = setup_events
     \<and> loss_lines (stdout s) = []
     \<and> default_device s = CUDA
     \<and> py_d s = Some d \<and> dev d = CUDA
     \<and> py_model s = Some [Linear 1000 100 w1 b1, ReLU, Linear 100 10 w2 b2]
     \<and> map param_signature [w1, b1, w2, b2] =
          [([100, 1000], CUDA, True), ([100], CUDA, True), ([10, 100], CUDA, True), ([10], CUDA, True)]
     \<and> py_x s = Some (Variable \<lparr>dims = [64, 1000], dev = CUDA,
                                 elems = fst (draws (normal L) 64000 (snd (draws (normal L) 2 g)))\<rparr> False)
     \<and> py_y s = Some (Variable \<lparr>dims = [64, 10], dev = CUDA,
                                 elems = fst (draws (normal L) 640
                                          (snd (draws (normal L) 64000 (snd (draws (normal L) 2 g)))))\<rparr> False)
     \<and> py_loss_fn s = Some (MSELoss False)
     \<and> py_learning_rate s = Some (float_lit L 1 (- 4))
     \<and> trainable s"
  using assms
  apply (simp add: setup_stmts_def cells_def stmt_defs lib_defs initial_state_def Let_def numel_def split_beta)
  apply (simp add: setup_events_def trainable_def model_cuda_def parameters_def param_ok_def grad_ok_def
      variable_cuda_def length_draws numel_def param_signature_def)
  done

lemma script_model_parameters:
  "length (parameters [Linear i k w1 b1, ReLU, Linear i' k' w2 b2]) = 4"
  by (simp add: parameters_def)

lemma iteration_events_4:
  "iteration_events 4 =
     [E_forward, E_loss_fn, E_print, E_zero_grad, E_backward, E_parameters,
      E_update 0, E_update 1, E_update 2, E_update 3]"
  by (simp add: iteration_events_def upt_rec)

lemma script_run:
  assumes "torch_installed e" "cuda_available e"
  shows "\<exists>s0 s m0 m.
       exec_seq (setup_stmts L e) (initial_state g) = Inr s0
     \<and> script L e g = Inr s
     \<and> py_model s0 = Some m0 \<and> py_model s = Some m
     \<and> length (parameters m) = 4
     \<and> trace s = setup_events @ concat (replicate 500 (iteration_events 4))
     \<and> map fst (loss_lines (stdout s)) = [0..<500]
     \<and> frame s0 s"
proof -
  from setup_state[OF assms, of L g] obtain s0 w1 b1 w2 b2 where
    s0: "exec_seq (setup_stmts L e) (initial_state g) = Inr s0" "trace s0 = setup_events"
      "loss_lines (stdout s0) = []"
      "py_model s0 = Some [Linear 1000 100 w1 b1, ReLU, Linear 100 10 w2 b2]" "trainable s0"
    by blast
  from train_loop_ok[OF s0(5,4), of L 0 500] obtain s m where
    s: "for_each (iteration L) [0..<500] s0 = Inr s" "py_model s = Some m"
      "length (parameters m) = length (parameters [Linear 1000 100 w1 b1, ReLU, Linear 100 10 w2 b2])"
      "trace s = trace s0 @ concat (replicate 500
          (iteration_events (length (parameters [Linear 1000 100 w1 b1, ReLU, Linear 100 10 w2 b2]))))"
      "map fst (loss_lines (stdout s)) = map fst (loss_lines (stdout s0)) @ [0..<500]"
    by auto
  have "script L e g = Inr s"
    using s0(1) s(1) by (simp add: script_split stmt_train_def)
  moreover have "frame s0 s" by (rule frame_loop[OF s(1)])
  ultimately show ?thesis
    using s0 s by (simp add: script_model_parameters)
qed

lemma rest_eq_iff:
  "rest s' = rest s \<longleftrightarrow>
     rng s' = rng s \<and> default_device s' = default_device s
   \<and> py_a s' = py_a s \<and> py_b s' = py_b s \<and> py_c s' = py_c s \<and> py_use_cuda s' = py_use_cuda s
   \<and> py_FloatTensor s' = py_FloatTensor s \<and> py_LongTensor s' = py_LongTensor s
   \<and> py_ByteTensor s' = py_ByteTensor s \<and> py_Tensor s' = py_Tensor s \<and> py_d s' = py_d s
   \<and> py_N s' = py_N s \<and> py_dim_in s' = py_dim_in s \<and> py_H s' = py_H s
   \<and> py_dim_out s' = py_dim_out s \<and> py_x s' = py_x s \<and> py_y s' = py_y s
   \<and> py_loss_fn s' = py_loss_fn s \<and> py_learning_rate s' = py_learning_rate s
   \<and> state.more s' = state.more s"
  by (cases s, cases s') (simp add: rest_def)

lemma filter_concat_replicate:
  "filter P xs = [] \<Longrightarrow> filter P (concat (replicate n xs)) = []"
  by (induction n) auto

lemma script_without_torch:
  "\<not> torch_installed e \<Longrightarrow>
   script L e g = Inl (ImportError, (initial_state g)\<lparr>trace := [E_import_torch]\<rparr>)"
  by (simp add: script_def cells_def stmt_import_torch_def call_def raise_def initial_state_def)

lemma script_without_cuda:
  "torch_installed e \<Longrightarrow> \<not> cuda_available e \<Longrightarrow>
   script L e g =
     Inl (CudaError,
          (initial_state g)\<lparr>trace := [E_import_torch, E_version, E_print, E_is_available, E_print,
                                      E_cuda_FloatTensor],
                            stdout := [Out_version (torch_version e), Out_cuda_available False]\<rparr>)"
  by (simp add: script_def cells_def stmt_import_torch_def stmt_print_version_def
      stmt_print_cuda_available_def stmt_a_def new_tensor_def device_ready_def call_def print_def
      raise_def initial_state_def)

lemma count_concat_replicate:
  "count_list xs a = 0 \<Longrightarrow> count_list (concat (replicate n xs)) a = 0"
  by (induction n) auto



lemma state_before_iteration_Suc:
  "state_before_iteration L e g (Suc t) =
     (case state_before_iteration L e g t of Inl err \<Rightarrow> Inl err | Inr s \<Rightarrow> iteration L t s)"
  by (simp add: state_before_iteration_def exec_seq_append for_each_append split: sum.splits)

lemma script_is_state_before_500: "script L e g = state_before_iteration L e g 500"
  by (simp add: script_split state_before_iteration_def exec_seq_append stmt_train_def
      split: sum.splits)

lemma before_iteration:
  assumes "torch_installed e" "cuda_available e"
  shows "\<exists>s m. state_before_iteration L e g t = Inr s \<and> trainable s
     \<and> py_model s = Some m \<and> length (parameters m) = 4
     \<and> py_learning_rate s = Some (float_lit L 1 (- 4))
     \<and> py_loss_fn s = Some (MSELoss False)
     \<and> py_x s = Some (Variable \<lparr>dims = [64, 1000], dev = CUDA,
                                 elems = fst (draws (normal L) 64000 (snd (draws (normal L) 2 g)))\<rparr> False)
     \<and> py_y s = Some (Variable \<lparr>dims = [64, 10], dev = CUDA,
                                 elems = fst (draws (normal L) 640
                                          (snd (draws (normal L) 64000 (snd (draws (normal L) 2 g)))))\<rparr> False)"
proof -
  let ?x = "Variable \<lparr>dims = [64, 1000], dev = CUDA,
                                 elems = fst (draws (normal L) 64000 (snd (draws (normal L) 2 g)))\<rparr> False"
  let ?y = "Variable \<lparr>dims = [64, 10], dev = CUDA,
                                 elems = fst (draws (normal L) 640
                                          (snd (draws (normal L) 64000 (snd (draws (normal L) 2 g)))))\<rparr> False"
  from setup_state[OF assms, of L g] obtain s0 w1 b1 w2 b2 where
    s0: "exec_seq (setup_stmts L e) (initial_state g) = Inr s0"
      "py_model s0 = Some [Linear 1000 100 w1 b1, ReLU, Linear 100 10 w2 b2]"
      "py_x s0 = Some ?x" "py_y s0 = Some ?y"
      "py_loss_fn s0 = Some (MSELoss False)" "py_learning_rate s0 = Some (float_lit L 1 (- 4))"
      "trainable s0"
    by (elim exE conjE) (rule that, assumption+)
  from train_loop_ok[OF s0(7,2), of L 0 t] obtain s m where
    s: "for_each (iteration L) [0..<t] s0 = Inr s" "trainable s" "py_model s = Some m"
      "length (parameters m) = length (parameters [Linear 1000 100 w1 b1, ReLU, Linear 100 10 w2 b2])"
    by auto
  have "frame s0 s" by (rule frame_loop[OF s(1)])
  then have "rest s = rest s0" by (simp add: frame_def)
  then have same: "py_x s = py_x s0" "py_y s = py_y s0" "py_loss_fn s = py_loss_fn s0"
      "py_learning_rate s = py_learning_rate s0"
    by (simp_all add: rest_eq_iff)
  have run: "state_before_iteration L e g t = Inr s"
    using s0(1) s(1) by (simp add: state_before_iteration_def exec_seq_append)
  have len: "length (parameters m) = 4"
    using s(4) by (simp add: script_model_parameters)
  have f: "py_learning_rate s = Some (float_lit L 1 (- 4))" "py_loss_fn s = Some (MSELoss False)"
      "py_x s = Some ?x" "py_y s = Some ?y"
    using same s0 by simp_all
  show ?thesis
    by (intro exI conjI) (rule run s(2) s(3) len f)+
qed

lemma data_zero_grad: "data (variable_zero_grad L v) = data v"
  by (simp add: variable_zero_grad_def)

lemma data_accumulate: "data (accumulate_grad L l p v) = data v"
  by (simp add: accumulate_grad_def split: option.splits)

lemma parameters_zero_grad:
  "parameters (model_zero_grad L ms) = map (variable_zero_grad L) (parameters ms)"
  by (simp add: model_zero_grad_def parameters_set_parameters)

lemma parameters_backward:
  "parameters (model_backward L l ms)
     = map (\<lambda>(p, v). accumulate_grad L l p v) (zip [0..<length (parameters ms)] (parameters ms))"
  by (simp add: model_backward_def parameters_set_parameters)

lemma parameters_update:
  "parameters (model_update L lr ms) = map (updated L lr) (parameters ms)"
  by (simp add: model_update_def parameters_set_parameters)

lemma data_backward_zero_grad:
  "map data (parameters (model_backward L l (model_zero_grad L ms))) = map data (parameters ms)"
proof -
  have "map data (parameters (model_backward L l (model_zero_grad L ms)))
      = map data (parameters (model_zero_grad L ms))"
    unfolding parameters_backward
    using map_indexed_signature[where h = data and f = "accumulate_grad L l" and j = 0
        and xs = "parameters (model_zero_grad L ms)"]
    by (simp add: data_accumulate)
  also have "\<dots> = map data (parameters ms)"
    by (simp add: parameters_zero_grad data_zero_grad)
  finally show ?thesis .
qed

lemma sgd_step:
  assumes "chain_ok d i ms" "p < length (parameters ms)"
  shows "\<exists>gr. grad (parameters (model_backward L l (model_zero_grad L ms)) ! p) = Some gr
     \<and> grad (parameters (model_update L lr (model_backward L l (model_zero_grad L ms))) ! p) = Some gr
     \<and> data (parameters (model_update L lr (model_backward L l (model_zero_grad L ms))) ! p)
         = sgd_data L lr (data (parameters ms ! p)) gr"
proof -
  let ?m2 = "model_backward L l (model_zero_grad L ms)"
  note c1 = model_zero_grad_ok[OF assms(1), of L]
  note c2 = model_backward_ok[OF c1(1), of L l]
  have len: "length (parameters ?m2) = length (parameters ms)"
    using c2(3) c1(3) by simp
  then have p2: "p < length (parameters ?m2)" using assms(2) by simp
  from c2(4) p2 have "updatable (parameters ?m2 ! p)"
    by (simp add: list_all_length)
  then obtain gr where gr: "grad (parameters ?m2 ! p) = Some gr"
    by (auto simp: updatable_def split: option.splits)
  have "map data (parameters ?m2) ! p = map data (parameters ms) ! p"
    by (simp add: data_backward_zero_grad)
  then have d: "data (parameters ?m2 ! p) = data (parameters ms ! p)"
    using p2 assms(2) by simp
  have "parameters (model_update L lr ?m2) ! p = updated L lr (parameters ?m2 ! p)"
    using p2 by (simp add: parameters_update)
  then show ?thesis using gr d by (simp add: updated_def)
qed

lemma mse_loss_example:
  "mse_loss test_lib False \<lparr>dims = [2], dev = CPU, elems = [3, 5]\<rparr> \<lparr>dims = [2], dev = CPU, elems = [1, 1]\<rparr>
     = Inr \<lparr>dims = [1], dev = CPU, elems = [20]\<rparr>"
  "mse_loss test_lib True \<lparr>dims = [2], dev = CPU, elems = [3, 5]\<rparr> \<lparr>dims = [2], dev = CPU, elems = [1, 1]\<rparr>
     = Inr \<lparr>dims = [1], dev = CPU, elems = [10]\<rparr>"
  by (simp_all add: mse_loss_def squared_errors_def total_def test_lib_def)

lemma rest_eq_update:
  "rest s' = rest s \<Longrightarrow>
   s' = s\<lparr>trace := trace s', stdout := stdout s', py_model := py_model s', py_t := py_t s',
          py_y_pred := py_y_pred s', py_loss := py_loss s'\<rparr>"
  by (cases s, cases s') (simp add: rest_def)

lemma descent_without_print:
  assumes tr: "trainable s"
    and m: "py_model s = Some m" and x: "py_x s = Some x" and y: "py_y s = Some y"
    and f: "py_loss_fn s = Some (MSELoss sa)" and lr: "py_learning_rate s = Some lr"
  shows "\<exists>out. sequential_forward L m (data x) = Inr out
           \<and> exec_seq [stmt_forward L, stmt_loss L, stmt_zero_grad L, stmt_backward L, stmt_update_all L]
                (s\<lparr>py_t := Some t\<rparr>) =
               Inr (s\<lparr>trace := trace s @ [E_forward, E_loss_fn, E_zero_grad, E_backward, E_parameters]
                                @ map E_update [0..<length (parameters m)],
                      py_model := Some (model_update L lr
                                          (model_backward L (loss_of L sa m x y out) (model_zero_grad L m))),
                      py_t := Some t,
                      py_y_pred := Some \<lparr>pred_data = out, pred_modules = m, pred_input = x\<rparr>,
                      py_loss := Some (loss_of L sa m x y out)\<rparr>)"
proof -
  from tr m x y f lr have wf: "dims (data x) \<noteq> []" "length (elems (data x)) = numel (dims (data x))"
      "chain_ok (dev (data x)) (last (dims (data x))) m" "\<not> requires_grad y"
      "dev (data y) = dev (data x)"
      "dims (data y) = butlast (dims (data x)) @ [out_features (last (dims (data x))) m]"
    by (simp_all add: trainable_def)
  from sequential_forward_ok[OF wf(1,2,3), of L] obtain out where
    out: "sequential_forward L m (data x) = Inr out"
      "dims out = butlast (dims (data x)) @ [out_features (last (dims (data x))) m]"
      "dev out = dev (data x)" "length (elems out) = numel (dims out)"
    by blast
  let ?p = "\<lparr>pred_data = out, pred_modules = m, pred_input = x\<rparr>"
  let ?l = "loss_of L sa m x y out"
  let ?m1 = "model_zero_grad L m"
  let ?m2 = "model_backward L ?l ?m1"
  let ?s0 = "s\<lparr>py_t := Some t\<rparr>"
  let ?s1 = "?s0\<lparr>trace := trace s @ [E_forward], py_y_pred := Some ?p\<rparr>"
  let ?s2 = "?s1\<lparr>trace := trace s @ [E_forward, E_loss_fn], py_loss := Some ?l\<rparr>"
  let ?s4 = "?s2\<lparr>trace := trace s @ [E_forward, E_loss_fn, E_zero_grad], py_model := Some ?m1\<rparr>"
  let ?s5 = "?s4\<lparr>trace := trace s @ [E_forward, E_loss_fn, E_zero_grad, E_backward],
                  py_model := Some ?m2\<rparr>"
  let ?s5' = "call E_parameters ?s5"
  have crit: "criterion_call L (MSELoss sa) ?p y = Inr ?l"
    using wf(4,5,6) out(2,3) by (simp add: mse_loss_def loss_of_def Let_def)
  have c1: "chain_ok (dev (data x)) (last (dims (data x))) ?m1"
    by (rule model_zero_grad_ok(1)[OF wf(3)])
  have n1: "length (parameters ?m1) = length (parameters m)"
    by (rule model_zero_grad_ok(3)[OF wf(3)])
  have n2: "length (parameters ?m2) = length (parameters m)"
    using model_backward_ok(3)[OF c1, of L ?l] n1 by simp
  have u2: "list_all updatable (parameters ?m2)"
    by (rule model_backward_ok(4)[OF c1])
  have st1: "stmt_forward L ?s0 = Inr ?s1"
    using m x out(1) by (simp add: stmt_forward_def call_def)
  have st2: "stmt_loss L ?s1 = Inr ?s2"
    using f y crit by (simp add: stmt_loss_def call_def)
  have st4: "stmt_zero_grad L ?s2 = Inr ?s4"
    using m by (simp add: stmt_zero_grad_def call_def)
  have st5: "stmt_backward L ?s4 = Inr ?s5"
    by (simp add: stmt_backward_def call_def)
  have loop: "for_each (stmt_update L) [0..<length (parameters ?m2)] ?s5' =
     Inr (?s5'\<lparr>trace := trace ?s5' @ map E_update [0..<length (parameters ?m2)],
            py_model := Some (set_parameters ?m2
               (take 0 (parameters ?m2) @ map (updated L lr) (drop 0 (parameters ?m2))))\<rparr>)"
    by (rule update_loop_ok) (use lr u2 in \<open>simp_all add: call_def\<close>)
  have sp: "set_parameters ?m2 (map (updated L lr) (parameters ?m2)) = model_update L lr ?m2"
    by (simp add: model_update_def)
  have st6: "stmt_update_all L ?s5 =
     Inr (?s5\<lparr>trace := trace s @ [E_forward, E_loss_fn, E_zero_grad, E_backward, E_parameters]
                                @ map E_update [0..<length (parameters m)],
              py_model := Some (model_update L lr ?m2)\<rparr>)"
    using loop sp n2 by (simp add: stmt_update_all_def call_def)
  have "exec_seq [stmt_forward L, stmt_loss L, stmt_zero_grad L, stmt_backward L, stmt_update_all L] ?s0 =
     Inr (?s5\<lparr>trace := trace s @ [E_forward, E_loss_fn, E_zero_grad, E_backward, E_parameters]
                                @ map E_update [0..<length (parameters m)],
              py_model := Some (model_update L lr ?m2)\<rparr>)"
    using st1 st2 st4 st5 st6 by simp
  then show ?thesis using out(1) by simp
qed

section \<open>The claims\<close>

text \<open>
  C1.  On a machine with the library and the accelerator the script runs to its end.
  The calls of its training loop are 500 repetitions of: forward pass of the model,
  call of the loss function, print, gradient zeroing, backward pass, and the update of
  each of the four parameters of the model, in this order; the printed iteration
  numbers are 0 to 499.  In each of the 500 passes the prediction is the forward pass
  of the current model on \<^verbatim>\<open>x\<close>, the loss is the criterion (the library's \<^verbatim>\<open>MSELoss\<close>,
  built with \<^verbatim>\<open>size_average\<close> off) applied to this prediction and \<^verbatim>\<open>y\<close>, and the model
  after the pass is the model with zeroed gradients, then the gradients of this loss,
  then every parameter updated.
\<close>

theorem training_loop_500_iterations:
  assumes "torch_installed e" "cuda_available e"
  shows "(\<exists>s m. script L e g = Inr s \<and> state_before_iteration L e g 500 = Inr s
       \<and> trace s = setup_events @ concat (replicate 500
            [E_forward, E_loss_fn, E_print, E_zero_grad, E_backward, E_parameters,
             E_update 0, E_update 1, E_update 2, E_update 3])
       \<and> map fst (loss_lines (stdout s)) = [0..<500]
       \<and> py_loss_fn s = Some (MSELoss False)
       \<and> py_model s = Some m \<and> length (parameters m) = 4)
   \<and> (\<forall>t<500. \<exists>s s' m x y out.
         state_before_iteration L e g t = Inr s \<and> iteration L t s = Inr s'
       \<and> state_before_iteration L e g (Suc t) = Inr s'
       \<and> py_model s = Some m \<and> py_x s = Some x \<and> py_y s = Some y
       \<and> sequential_forward L m (data x) = Inr out
       \<and> trace s' = trace s @
            [E_forward, E_loss_fn, E_print, E_zero_grad, E_backward, E_parameters,
             E_update 0, E_update 1, E_update 2, E_update 3]
       \<and> py_y_pred s' = Some \<lparr>pred_data = out, pred_modules = m, pred_input = x\<rparr>
       \<and> py_loss s' = Some (loss_of L False m x y out)
       \<and> py_model s' =
            Some (model_update L (float_lit L 1 (- 4))
                    (model_backward L (loss_of L False m x y out) (model_zero_grad L m))))"
proof (intro conjI allI impI)
  from script_run[OF assms, of L g] obtain s where
    s: "script L e g = Inr s"
      "trace s = setup_events @ concat (replicate 500 (iteration_events 4))"
      "map fst (loss_lines (stdout s)) = [0..<500]"
    by blast
  from before_iteration[OF assms, of L g 500] s(1) obtain m where
    m: "py_model s = Some m" "length (parameters m) = 4" "py_loss_fn s = Some (MSELoss False)"
    by (auto simp: script_is_state_before_500)
  have b: "state_before_iteration L e g 500 = Inr s"
    using s(1) by (simp add: script_is_state_before_500)
  have tr: "trace s = setup_events @ concat (replicate 500
            [E_forward, E_loss_fn, E_print, E_zero_grad, E_backward, E_parameters,
             E_update 0, E_update 1, E_update 2, E_update 3])"
    using s(2) by (simp add: iteration_events_4)
  show "\<exists>s m. script L e g = Inr s \<and> state_before_iteration L e g 500 = Inr s
       \<and> trace s = setup_events @ concat (replicate 500
            [E_forward, E_loss_fn, E_print, E_zero_grad, E_backward, E_parameters,
             E_update 0, E_update 1, E_update 2, E_update 3])
       \<and> map fst (loss_lines (stdout s)) = [0..<500]
       \<and> py_loss_fn s = Some (MSELoss False)
       \<and> py_model s = Some m \<and> length (parameters m) = 4"
    by (intro exI conjI) (rule s(1) b tr s(3) m)+
next
  fix t :: nat
  assume "t < 500"
  let ?lr = "float_lit L 1 (- 4)"
  from before_iteration[OF assms, of L g t] obtain s m x y where
    s: "state_before_iteration L e g t = Inr s" "trainable s" "py_model s = Some m"
      "length (parameters m) = 4" "py_learning_rate s = Some ?lr"
      "py_loss_fn s = Some (MSELoss False)" "py_x s = Some x" "py_y s = Some y"
    by (elim exE conjE) (rule that, assumption+)
  from iteration_ok[OF s(2,3,7,8,6,5), of L t] obtain out where
    out: "sequential_forward L m (data x) = Inr out"
    and it: "iteration L t s =
               Inr (s\<lparr>trace := trace s @ [E_forward, E_loss_fn, E_print, E_zero_grad, E_backward, E_parameters]
                                @ map E_update [0..<length (parameters m)],
                      stdout := stdout s @ [Out_loss t (hd (elems (loss_data (loss_of L False m x y out))))],
                      py_model := Some (model_update L ?lr
                                          (model_backward L (loss_of L False m x y out) (model_zero_grad L m))),
                      py_t := Some t,
                      py_y_pred := Some \<lparr>pred_data = out, pred_modules = m, pred_input = x\<rparr>,
                      py_loss := Some (loss_of L False m x y out)\<rparr>)"
    by blast
  obtain s' where s': "iteration L t s = Inr s'"
      "trace s' = trace s @
            [E_forward, E_loss_fn, E_print, E_zero_grad, E_backward, E_parameters,
             E_update 0, E_update 1, E_update 2, E_update 3]"
      "py_y_pred s' = Some \<lparr>pred_data = out, pred_modules = m, pred_input = x\<rparr>"
      "py_loss s' = Some (loss_of L False m x y out)"
      "py_model s' = Some (model_update L ?lr
                      (model_backward L (loss_of L False m x y out) (model_zero_grad L m)))"
    using it s(4) iteration_events_4 by (simp add: iteration_events_def)
  have nxt: "state_before_iteration L e g (Suc t) = Inr s'"
    using s(1) s'(1) by (simp add: state_before_iteration_Suc)
  show "\<exists>s s' m x y out.
         state_before_iteration L e g t = Inr s \<and> iteration L t s = Inr s'
       \<and> state_before_iteration L e g (Suc t) = Inr s'
       \<and> py_model s = Some m \<and> py_x s = Some x \<and> py_y s = Some y
       \<and> sequential_forward L m (data x) = Inr out
       \<and> trace s' = trace s @
            [E_forward, E_loss_fn, E_print, E_zero_grad, E_backward, E_parameters,
             E_update 0, E_update 1, E_update 2, E_update 3]
       \<and> py_y_pred s' = Some \<lparr>pred_data = out, pred_modules = m, pred_input = x\<rparr>
       \<and> py_loss s' = Some (loss_of L False m x y out)
       \<and> py_model s' =
            Some (model_update L (float_lit L 1 (- 4))
                    (model_backward L (loss_of L False m x y out) (model_zero_grad L m)))"
    by (intro exI conjI) (rule s(1) s'(1) nxt s(3) s(7) s(8) out s'(2) s'(3) s'(4) s'(5))+
qed

theorem training_loop_500_iterations_witness:
  "\<exists>s m. script test_lib jetson 0 = Inr s \<and> state_before_iteration test_lib jetson 0 500 = Inr s
       \<and> trace s = setup_events @ concat (replicate 500
            [E_forward, E_loss_fn, E_print, E_zero_grad, E_backward, E_parameters,
             E_update 0, E_update 1, E_update 2, E_update 3])
       \<and> map fst (loss_lines (stdout s)) = [0..<500]
       \<and> py_loss_fn s = Some (MSELoss False)
       \<and> py_model s = Some m \<and> length (parameters m) = 4"
proof -
  have h: "torch_installed jetson" "cuda_available jetson"
    by (simp_all add: jetson_def)
  from training_loop_500_iterations[OF h, of test_lib 0] show ?thesis
    by (rule conjunct1)
qed

text \<open>
  C2.  The model of a run is a container of exactly three modules, in this order: a
  linear layer from 1000 to 100 features, a rectifier, and a linear layer from 100 to
  10 features, with weights of shape 100 x 1000 and 10 x 100 and biases of 100 and 10
  elements; over the whole run the container constructor is called once, with the three
  modules.
\<close>

theorem model_is_two_layer_network:
  assumes "torch_installed e" "cuda_available e"
  shows "\<exists>s0 s w1 b1 w2 b2 m.
       exec_seq (setup_stmts L e) (initial_state g) = Inr s0
     \<and> py_model s0 = Some [Linear 1000 100 w1 b1, ReLU, Linear 100 10 w2 b2]
     \<and> script L e g = Inr s \<and> py_model s = Some m
     \<and> map layer_of m = [LinearLayer 1000 100, ReLULayer, LinearLayer 100 10]
     \<and> map (\<lambda>v. dims (data v)) (parameters m) = [[100, 1000], [100], [10, 100], [10]]
     \<and> filter is_factory_call (trace s) = [E_Sequential 3]"
proof -
  from setup_state[OF assms, of L g] obtain s0 w1 b1 w2 b2 where
    s0: "exec_seq (setup_stmts L e) (initial_state g) = Inr s0"
      "py_model s0 = Some [Linear 1000 100 w1 b1, ReLU, Linear 100 10 w2 b2]"
      "map param_signature [w1, b1, w2, b2] =
          [([100, 1000], CUDA, True), ([100], CUDA, True), ([10, 100], CUDA, True), ([10], CUDA, True)]"
    by (elim exE conjE) (rule that, assumption+)
  from script_run[OF assms, of L g] s0(1) obtain s m where
    s: "script L e g = Inr s" "py_model s = Some m"
      "trace s = setup_events @ concat (replicate 500 (iteration_events 4))" "frame s0 s"
    by auto
  have sig: "model_signature m = model_signature [Linear 1000 100 w1 b1, ReLU, Linear 100 10 w2 b2]"
    using s(4) s(2) s0(2) by (simp add: frame_def)
  then have layers: "map layer_of m = [LinearLayer 1000 100, ReLULayer, LinearLayer 100 10]"
    by (simp add: model_signature_def)
  from sig have "map param_signature (parameters m) = map param_signature [w1, b1, w2, b2]"
    by (simp add: model_signature_def parameters_def)
  then have "map (fst \<circ> param_signature) (parameters m) = map fst (map param_signature [w1, b1, w2, b2])"
    by (metis map_map)
  then have shapes: "map (\<lambda>v. dims (data v)) (parameters m) = [[100, 1000], [100], [10, 100], [10]]"
    unfolding s0(3) by (simp add: param_signature_def comp_def)
  have "filter is_factory_call (iteration_events 4) = []"
    by (simp add: iteration_events_4)
  then have fc: "filter is_factory_call (trace s) = [E_Sequential 3]"
    using s(3) by (simp add: filter_concat_replicate setup_events_def)
  show ?thesis
    by (intro exI conjI) (rule s0(1) s0(2) s(1) s(2) layers shapes fc)+
qed

theorem model_is_two_layer_network_witness:
  "\<exists>s0 s w1 b1 w2 b2 m.
       exec_seq (setup_stmts test_lib jetson) (initial_state 0) = Inr s0
     \<and> py_model s0 = Some [Linear 1000 100 w1 b1, ReLU, Linear 100 10 w2 b2]
     \<and> script test_lib jetson 0 = Inr s \<and> py_model s = Some m
     \<and> map layer_of m = [LinearLayer 1000 100, ReLULayer, LinearLayer 100 10]
     \<and> map (\<lambda>v. dims (data v)) (parameters m) = [[100, 1000], [100], [10, 100], [10]]
     \<and> filter is_factory_call (trace s) = [E_Sequential 3]"
  using model_is_two_layer_network[where e = jetson and L = test_lib and g = 0]
  by (simp add: jetson_def)

text \<open>
  C3.  In every pass \<open>t\<close> of the training loop of a run, the learning rate is the
  literal \<^verbatim>\<open>1e-4\<close>, and each of the four parameters of the model ends the pass with the
  data it had at the start of the pass minus, element by element, the learning rate
  times the gradient that this pass's backward pass stored in the parameter
  (\<open>sgd_data\<close>); the gradient itself is left in place.  The calls of the pass are
  the forward pass, the loss, the print, the gradient zeroing, the backward pass and
  the four updates: no optimizer is called.  The input and the target are the samples
  drawn by \<^verbatim>\<open>torch.randn\<close>.
\<close>

theorem manual_gradient_descent:
  assumes "torch_installed e" "cuda_available e" "t < 500"
  shows "\<exists>s s' x y m l m'.
       state_before_iteration L e g t = Inr s \<and> iteration L t s = Inr s'
     \<and> state_before_iteration L e g (Suc t) = Inr s'
     \<and> py_x s = Some x
     \<and> elems (data x) = fst (draws (normal L) 64000 (snd (draws (normal L) 2 g)))
     \<and> py_y s = Some y
     \<and> elems (data y) = fst (draws (normal L) 640
                                (snd (draws (normal L) 64000 (snd (draws (normal L) 2 g)))))
     \<and> py_learning_rate s = Some (float_lit L 1 (- 4))
     \<and> trace s' = trace s @
            [E_forward, E_loss_fn, E_print, E_zero_grad, E_backward, E_parameters,
             E_update 0, E_update 1, E_update 2, E_update 3]
     \<and> py_model s = Some m \<and> py_loss s' = Some l \<and> py_model s' = Some m'
     \<and> length (parameters m) = 4 \<and> length (parameters m') = 4
     \<and> (\<forall>p<4. \<exists>gr.
           grad (parameters (model_backward L l (model_zero_grad L m)) ! p) = Some gr
         \<and> grad (parameters m' ! p) = Some gr
         \<and> data (parameters m' ! p)
             = sgd_data L (float_lit L 1 (- 4)) (data (parameters m ! p)) gr)"
proof -
  let ?lr = "float_lit L 1 (- 4)"
  let ?x = "Variable \<lparr>dims = [64, 1000], dev = CUDA,
                                 elems = fst (draws (normal L) 64000 (snd (draws (normal L) 2 g)))\<rparr> False"
  let ?y = "Variable \<lparr>dims = [64, 10], dev = CUDA,
                                 elems = fst (draws (normal L) 640
                                          (snd (draws (normal L) 64000 (snd (draws (normal L) 2 g)))))\<rparr> False"
  from before_iteration[OF assms(1,2), of L g t] obtain s m where
    s: "state_before_iteration L e g t = Inr s" "trainable s" "py_model s = Some m"
      "length (parameters m) = 4" "py_learning_rate s = Some ?lr"
      "py_loss_fn s = Some (MSELoss False)" "py_x s = Some ?x" "py_y s = Some ?y"
    by (elim exE conjE) (rule that, assumption+)
  from iteration_ok[OF s(2,3,7,8,6,5), of L t] obtain out where
    it: "iteration L t s =
               Inr (s\<lparr>trace := trace s @ [E_forward, E_loss_fn, E_print, E_zero_grad, E_backward, E_parameters]
                                @ map E_update [0..<length (parameters m)],
                      stdout := stdout s @ [Out_loss t (hd (elems (loss_data (loss_of L False m ?x ?y out))))],
                      py_model := Some (model_update L ?lr
                                          (model_backward L (loss_of L False m ?x ?y out) (model_zero_grad L m))),
                      py_t := Some t,
                      py_y_pred := Some \<lparr>pred_data = out, pred_modules = m, pred_input = ?x\<rparr>,
                      py_loss := Some (loss_of L False m ?x ?y out)\<rparr>)"
    by blast
  let ?l = "loss_of L False m ?x ?y out"
  let ?m' = "model_update L ?lr (model_backward L ?l (model_zero_grad L m))"
  obtain s' where s': "iteration L t s = Inr s'" "py_loss s' = Some ?l" "py_model s' = Some ?m'"
      "trace s' = trace s @
            [E_forward, E_loss_fn, E_print, E_zero_grad, E_backward, E_parameters,
             E_update 0, E_update 1, E_update 2, E_update 3]"
    using it s(4) iteration_events_4 by (simp add: iteration_events_def)
  have nxt: "state_before_iteration L e g (Suc t) = Inr s'"
    using s(1) s'(1) by (simp add: state_before_iteration_Suc)
  from s(2,3,7) have ch: "chain_ok (dev (data ?x)) (last (dims (data ?x))) m"
    by (simp add: trainable_def split: option.splits)
  have step: "\<forall>p<4. \<exists>gr.
           grad (parameters (model_backward L ?l (model_zero_grad L m)) ! p) = Some gr
         \<and> grad (parameters ?m' ! p) = Some gr
         \<and> data (parameters ?m' ! p) = sgd_data L ?lr (data (parameters m ! p)) gr"
    using sgd_step[OF ch, of _ L ?l ?lr] s(4) by simp
  have len': "length (parameters ?m') = 4"
    using s(4) model_zero_grad_ok(3)[OF ch, of L]
      model_backward_ok(3)[OF model_zero_grad_ok(1)[OF ch, of L], of L ?l]
    by (simp add: parameters_update)
  have ex: "elems (data ?x) = fst (draws (normal L) 64000 (snd (draws (normal L) 2 g)))"
    by (simp add: Variable_def)
  have ey: "elems (data ?y) = fst (draws (normal L) 640
                                (snd (draws (normal L) 64000 (snd (draws (normal L) 2 g)))))"
    by (simp add: Variable_def)
  show ?thesis
    by (intro exI conjI) (rule s(1) s'(1) nxt s(7) ex s(8) ey s(5) s'(4) s(3) s'(2) s'(3) s(4) len' step)+
qed

theorem manual_gradient_descent_witness:
  "\<exists>s s' m l m'.
       state_before_iteration test_lib jetson 0 7 = Inr s \<and> iteration test_lib 7 s = Inr s'
     \<and> py_learning_rate s = Some (1 / 10000)
     \<and> py_model s = Some m \<and> py_loss s' = Some l \<and> py_model s' = Some m'
     \<and> (\<forall>p<4. \<exists>gr.
           grad (parameters (model_backward test_lib l (model_zero_grad test_lib m)) ! p) = Some gr
         \<and> data (parameters m' ! p) = sgd_data test_lib (1 / 10000) (data (parameters m ! p)) gr)"
proof -
  have lit: "float_lit test_lib 1 (- 4) = 1 / 10000"
    by (simp add: test_lib_def)
  have h: "torch_installed jetson" "cuda_available jetson" "(7::nat) < 500"
    by (simp_all add: jetson_def)
  from manual_gradient_descent[OF h, of test_lib 0] show ?thesis
    unfolding lit by blast
qed

text \<open>
  C4 (as stated).  Not every run sets the default tensor type: on a machine without an
  accelerator the run ends before that step, and no such call is made.
\<close>

theorem default_tensor_type_not_on_every_run:
  "E_set_default_tensor_type \<notin> set (trace (state_of (script test_lib cpu_only 0)))"
  using script_without_cuda[where e = cpu_only and L = test_lib and g = 0]
  by (simp add: cpu_only_def state_of_def initial_state_def)

text \<open>
  C4 (amended).  The step that sets the default tensor type is guarded by
  \<^verbatim>\<open>use_cuda\<close>: it makes the call, and the accelerator type the default, exactly when
  \<^verbatim>\<open>use_cuda\<close> is true.  On a machine with the library and the accelerator a run makes
  the call once, and the tensors created after it (\<^verbatim>\<open>d\<close>, \<^verbatim>\<open>x\<close>, \<^verbatim>\<open>y\<close> and the four
  parameters of the model) are on the accelerator.  On any other machine a run makes no
  such call and the default stays the host type.
\<close>

theorem default_tensor_type_guarded:
  "(\<forall>s u. py_use_cuda s = Some u \<longrightarrow>
        stmt_set_default s =
          Inr (if u then (call E_set_default_tensor_type s)\<lparr>default_device := CUDA\<rparr> else s))
   \<and> (torch_installed e \<and> cuda_available e \<longrightarrow>
        (\<exists>s d x y m. script L e g = Inr s
           \<and> count_list (trace s) E_set_default_tensor_type = 1
           \<and> default_device s = CUDA
           \<and> py_d s = Some d \<and> dev d = CUDA
           \<and> py_x s = Some x \<and> dev (data x) = CUDA
           \<and> py_y s = Some y \<and> dev (data y) = CUDA
           \<and> py_model s = Some m
           \<and> map (\<lambda>v. dev (data v)) (parameters m) = [CUDA, CUDA, CUDA, CUDA]))
   \<and> (\<not> (torch_installed e \<and> cuda_available e) \<longrightarrow>
        E_set_default_tensor_type \<notin> set (trace (state_of (script L e g)))
        \<and> default_device (state_of (script L e g)) = CPU)"
proof (intro conjI allI impI)
  fix s :: "('a, 'b) state" and u
  assume "py_use_cuda s = Some u"
  then show "stmt_set_default s =
          Inr (if u then (call E_set_default_tensor_type s)\<lparr>default_device := CUDA\<rparr> else s)"
    by (simp add: stmt_set_default_def)
next
  assume ok: "torch_installed e \<and> cuda_available e"
  then have a: "torch_installed e" "cuda_available e" by simp_all
  from setup_state[OF a, of L g] obtain s0 w1 b1 w2 b2 d x y where
    s0: "exec_seq (setup_stmts L e) (initial_state g) = Inr s0"
      "default_device s0 = CUDA" "py_d s0 = Some d" "dev d = CUDA"
      "py_model s0 = Some [Linear 1000 100 w1 b1, ReLU, Linear 100 10 w2 b2]"
      "map param_signature [w1, b1, w2, b2] =
          [([100, 1000], CUDA, True), ([100], CUDA, True), ([10, 100], CUDA, True), ([10], CUDA, True)]"
      "py_x s0 = Some x" "dev (data x) = CUDA" "py_y s0 = Some y" "dev (data y) = CUDA"
    by (elim exE conjE) (rule that, (assumption | simp add: Variable_def)+)
  from script_run[OF a, of L g] s0(1) obtain s m where
    s: "script L e g = Inr s" "py_model s = Some m"
      "trace s = setup_events @ concat (replicate 500 (iteration_events 4))" "frame s0 s"
    by auto
  from s(4) have r: "rest s = rest s0"
    and sig: "map_option model_signature (py_model s) = map_option model_signature (py_model s0)"
    by (simp_all add: frame_def)
  from r have same: "default_device s = default_device s0" "py_d s = py_d s0" "py_x s = py_x s0"
      "py_y s = py_y s0"
    by (simp_all add: rest_eq_iff)
  from sig s(2) s0(5) have "map param_signature (parameters m) = map param_signature [w1, b1, w2, b2]"
    by (simp add: model_signature_def parameters_def)
  then have "map (fst \<circ> snd \<circ> param_signature) (parameters m)
      = map (fst \<circ> snd) (map param_signature [w1, b1, w2, b2])"
    by (metis map_map)
  then have devs: "map (\<lambda>v. dev (data v)) (parameters m) = [CUDA, CUDA, CUDA, CUDA]"
    unfolding s0(6) by (simp add: param_signature_def comp_def)
  have "count_list (iteration_events 4) E_set_default_tensor_type = 0"
    by (simp add: iteration_events_4)
  then have cnt: "count_list (trace s) E_set_default_tensor_type = 1"
    using s(3) by (simp add: count_concat_replicate setup_events_def)
  have f: "default_device s = CUDA" "py_d s = Some d" "py_x s = Some x" "py_y s = Some y"
    using same s0 by simp_all
  show "\<exists>s d x y m. script L e g = Inr s
           \<and> count_list (trace s) E_set_default_tensor_type = 1
           \<and> default_device s = CUDA
           \<and> py_d s = Some d \<and> dev d = CUDA
           \<and> py_x s = Some x \<and> dev (data x) = CUDA
           \<and> py_y s = Some y \<and> dev (data y) = CUDA
           \<and> py_model s = Some m
           \<and> map (\<lambda>v. dev (data v)) (parameters m) = [CUDA, CUDA, CUDA, CUDA]"
    by (intro exI conjI) (rule s(1) cnt f s0(4) s0(8) s0(10) s(2) devs)+
next
  assume n: "\<not> (torch_installed e \<and> cuda_available e)"
  show "E_set_default_tensor_type \<notin> set (trace (state_of (script L e g)))"
  proof (cases "torch_installed e")
    case True
    with n have "\<not> cuda_available e" by simp
    from script_without_cuda[OF True this, of L g] show ?thesis
      by (simp add: state_of_def initial_state_def)
  next
    case False
    from script_without_torch[OF False, of L g] show ?thesis
      by (simp add: state_of_def initial_state_def)
  qed
next
  assume n: "\<not> (torch_installed e \<and> cuda_available e)"
  show "default_device (state_of (script L e g)) = CPU"
  proof (cases "torch_installed e")
    case True
    with n have "\<not> cuda_available e" by simp
    from script_without_cuda[OF True this, of L g] show ?thesis
      by (simp add: state_of_def initial_state_def)
  next
    case False
    from script_without_torch[OF False, of L g] show ?thesis
      by (simp add: state_of_def initial_state_def)
  qed
qed

theorem default_tensor_type_guarded_witness:
  "(\<exists>s d x y m. script test_lib jetson 0 = Inr s
           \<and> count_list (trace s) E_set_default_tensor_type = 1
           \<and> default_device s = CUDA
           \<and> py_d s = Some d \<and> dev d = CUDA
           \<and> py_x s = Some x \<and> dev (data x) = CUDA
           \<and> py_y s = Some y \<and> dev (data y) = CUDA
           \<and> py_model s = Some m
           \<and> map (\<lambda>v. dev (data v)) (parameters m) = [CUDA, CUDA, CUDA, CUDA])
   \<and> E_set_default_tensor_type \<notin> set (trace (state_of (script test_lib no_torch 0)))
   \<and> default_device (state_of (script test_lib no_torch 0)) = CPU
   \<and> stmt_set_default ((initial_state 0 :: (real, nat) state)\<lparr>py_use_cuda := Some False\<rparr>)
       = Inr ((initial_state 0)\<lparr>py_use_cuda := Some False\<rparr>)"
proof -
  note on = default_tensor_type_guarded[where e = jetson and L = test_lib and g = 0]
  note off = default_tensor_type_guarded[where e = no_torch and L = test_lib and g = 0]
  have c: "stmt_set_default ((initial_state 0 :: (real, nat) state)\<lparr>py_use_cuda := Some False\<rparr>)
       = Inr ((initial_state 0)\<lparr>py_use_cuda := Some False\<rparr>)"
    using on[THEN conjunct1, rule_format,
        of "(initial_state 0 :: (real, nat) state)\<lparr>py_use_cuda := Some False\<rparr>" False]
    by simp
  have a: "\<exists>s d x y m. script test_lib jetson 0 = Inr s
           \<and> count_list (trace s) E_set_default_tensor_type = 1
           \<and> default_device s = CUDA
           \<and> py_d s = Some d \<and> dev d = CUDA
           \<and> py_x s = Some x \<and> dev (data x) = CUDA
           \<and> py_y s = Some y \<and> dev (data y) = CUDA
           \<and> py_model s = Some m
           \<and> map (\<lambda>v. dev (data v)) (parameters m) = [CUDA, CUDA, CUDA, CUDA]"
    using on[THEN conjunct2, THEN conjunct1] by (simp add: jetson_def)
  have b: "E_set_default_tensor_type \<notin> set (trace (state_of (script test_lib no_torch 0)))
      \<and> default_device (state_of (script test_lib no_torch 0)) = CPU"
    using off[THEN conjunct2, THEN conjunct2] by (simp add: no_torch_def)
  show ?thesis
    using a b c by (intro conjI) simp_all
qed



text \<open>
  C7 (as stated).  The body of the training loop does not consist of five statements.
\<close>

theorem loop_body_not_five_statements:
  "length (loop_body test_lib) \<noteq> 5"
  by (simp add: loop_body_def)

text \<open>
  C7 (amended).  The body of the training loop consists of six statements: forward
  pass, loss, a print of the loss, gradient zeroing, backward pass and the loop that
  updates the parameters.  The print only adds a line to the output.  The five others
  perform the gradient descent: in a state in which the loop can run, they alone lead
  to the same model, prediction and loss as the whole body, and to the same state but
  for the record of calls and the printed line.
\<close>

theorem loop_body_six_statements:
  "loop_body (L :: ('a, 'g) lib) =
     [stmt_forward L, stmt_loss L, stmt_print_loss, stmt_zero_grad L, stmt_backward L,
      stmt_update_all L]
   \<and> length (loop_body L) = 6
   \<and> (\<forall>(s :: ('a, 'g) state) s'. stmt_print_loss s = Inr s' \<longrightarrow>
         (\<exists>t v. py_t s = Some t \<and> s' = print (Out_loss t v) s))
   \<and> (\<forall>s t. trainable s \<longrightarrow>
         (\<exists>s' s'' v. iteration L t s = Inr s'
            \<and> exec_seq [stmt_forward L, stmt_loss L, stmt_zero_grad L, stmt_backward L,
                         stmt_update_all L] (s\<lparr>py_t := Some t\<rparr>) = Inr s''
            \<and> py_model s'' = py_model s' \<and> py_y_pred s'' = py_y_pred s'
            \<and> py_loss s'' = py_loss s' \<and> rest s'' = rest s'
            \<and> stdout s'' = stdout s \<and> stdout s' = stdout s @ [Out_loss t v]))"
proof (intro conjI allI impI)
  show "loop_body L =
     [stmt_forward L, stmt_loss L, stmt_print_loss, stmt_zero_grad L, stmt_backward L,
      stmt_update_all L]"
    by (simp add: loop_body_def)
  show "length (loop_body L) = 6"
    by (simp add: loop_body_def)
next
  fix s s' :: "('a, 'g) state"
  assume "stmt_print_loss s = Inr s'"
  then show "\<exists>t v. py_t s = Some t \<and> s' = print (Out_loss t v) s"
    by (auto simp: stmt_print_loss_def raise_def split: option.splits list.splits)
next
  fix s :: "('a, 'g) state" and t
  assume tr: "trainable s"
  then obtain m x y sa lr where p: "py_model s = Some m" "py_x s = Some x" "py_y s = Some y"
    "py_loss_fn s = Some (MSELoss sa)" "py_learning_rate s = Some lr"
    by (rule trainable_parts)
  from iteration_ok[OF tr p, of L t] obtain out where
    out: "sequential_forward L m (data x) = Inr out"
    and it: "iteration L t s =
               Inr (s\<lparr>trace := trace s @ [E_forward, E_loss_fn, E_print, E_zero_grad, E_backward, E_parameters]
                                @ map E_update [0..<length (parameters m)],
                      stdout := stdout s @ [Out_loss t (hd (elems (loss_data (loss_of L sa m x y out))))],
                      py_model := Some (model_update L lr
                                          (model_backward L (loss_of L sa m x y out) (model_zero_grad L m))),
                      py_t := Some t,
                      py_y_pred := Some \<lparr>pred_data = out, pred_modules = m, pred_input = x\<rparr>,
                      py_loss := Some (loss_of L sa m x y out)\<rparr>)"
    by blast
  from descent_without_print[OF tr p, of L t] out have
    gd: "exec_seq [stmt_forward L, stmt_loss L, stmt_zero_grad L, stmt_backward L, stmt_update_all L]
                (s\<lparr>py_t := Some t\<rparr>) =
               Inr (s\<lparr>trace := trace s @ [E_forward, E_loss_fn, E_zero_grad, E_backward, E_parameters]
                                @ map E_update [0..<length (parameters m)],
                      py_model := Some (model_update L lr
                                          (model_backward L (loss_of L sa m x y out) (model_zero_grad L m))),
                      py_t := Some t,
                      py_y_pred := Some \<lparr>pred_data = out, pred_modules = m, pred_input = x\<rparr>,
                      py_loss := Some (loss_of L sa m x y out)\<rparr>)"
    by auto
  show "\<exists>s' s'' v. iteration L t s = Inr s'
            \<and> exec_seq [stmt_forward L, stmt_loss L, stmt_zero_grad L, stmt_backward L,
                         stmt_update_all L] (s\<lparr>py_t := Some t\<rparr>) = Inr s''
            \<and> py_model s'' = py_model s' \<and> py_y_pred s'' = py_y_pred s'
            \<and> py_loss s'' = py_loss s' \<and> rest s'' = rest s'
            \<and> stdout s'' = stdout s \<and> stdout s' = stdout s @ [Out_loss t v]"
    unfolding it gd by (simp add: rest_def)
qed

theorem loop_body_six_statements_witness:
  "\<exists>s s' s'' v. exec_seq (setup_stmts test_lib jetson) (initial_state 0) = Inr s
     \<and> iteration test_lib 0 s = Inr s'
     \<and> exec_seq [stmt_forward test_lib, stmt_loss test_lib, stmt_zero_grad test_lib,
                  stmt_backward test_lib, stmt_update_all test_lib] (s\<lparr>py_t := Some 0\<rparr>) = Inr s''
     \<and> py_model s'' = py_model s' \<and> py_y_pred s'' = py_y_pred s'
     \<and> py_loss s'' = py_loss s' \<and> rest s'' = rest s'
     \<and> stdout s'' = stdout s \<and> stdout s' = stdout s @ [Out_loss 0 v]
     \<and> (\<exists>sp t w. stmt_print_loss s' = Inr sp \<and> py_t s' = Some t \<and> sp = print (Out_loss t w) s')"
proof -
  have h: "torch_installed jetson" "cuda_available jetson"
    by (simp_all add: jetson_def)
  from setup_state[OF h, of test_lib 0] obtain s where
    s: "exec_seq (setup_stmts test_lib jetson) (initial_state 0) = Inr s" "trainable s"
    by blast
  note six = loop_body_six_statements[where L = test_lib]
  from six[THEN conjunct2, THEN conjunct2, THEN conjunct2, rule_format, OF s(2), of 0]
  obtain s' s'' v where
    r: "iteration test_lib 0 s = Inr s'"
      "exec_seq [stmt_forward test_lib, stmt_loss test_lib, stmt_zero_grad test_lib,
                  stmt_backward test_lib, stmt_update_all test_lib] (s\<lparr>py_t := Some 0\<rparr>) = Inr s''"
      "py_model s'' = py_model s'" "py_y_pred s'' = py_y_pred s'"
      "py_loss s'' = py_loss s'" "rest s'' = rest s'"
      "stdout s'' = stdout s" "stdout s' = stdout s @ [Out_loss 0 v]"
    by blast
  from s(2) obtain m x y sa lr where p: "py_model s = Some m" "py_x s = Some x" "py_y s = Some y"
    "py_loss_fn s = Some (MSELoss sa)" "py_learning_rate s = Some lr"
    by (rule trainable_parts)
  from iteration_ok[OF s(2) p, of test_lib 0] r(1) obtain out where
    "py_t s' = Some 0" "py_loss s' = Some (loss_of test_lib sa m x y out)"
    by auto
  then obtain sp where sp: "stmt_print_loss s' = Inr sp"
    by (simp add: stmt_print_loss_def loss_of_def)
  from six[THEN conjunct2, THEN conjunct2, THEN conjunct1, rule_format, OF sp]
  have pr: "\<exists>sp t w. stmt_print_loss s' = Inr sp \<and> py_t s' = Some t \<and> sp = print (Out_loss t w) s'"
    using sp by blast
  show ?thesis
    apply (rule exI[of _ s], rule exI[of _ s'], rule exI[of _ s''], rule exI[of _ v])
    apply (intro conjI)
             apply (rule s(1) r pr)+
    done
qed



text \<open>
  C9.  The accelerator query of cell 3 is only printed.  On a machine with the library
  and without an accelerator the run prints that the accelerator is not available, then
  attempts the allocation of \<^verbatim>\<open>a\<close> on the accelerator and ends there in the library's
  error: \<^verbatim>\<open>use_cuda\<close> is never bound, no default tensor type is set and no model is
  built.  On such a machine the statements that create \<^verbatim>\<open>a\<close> and \<^verbatim>\<open>b\<close> raise in every
  state.
\<close>

theorem cuda_allocation_not_guarded:
  assumes "torch_installed e" "\<not> cuda_available e"
  shows "script L e g =
           Inl (CudaError,
                (initial_state g)\<lparr>trace := [E_import_torch, E_version, E_print, E_is_available,
                                            E_print, E_cuda_FloatTensor],
                                  stdout := [Out_version (torch_version e), Out_cuda_available False]\<rparr>)
     \<and> py_use_cuda (state_of (script L e g)) = None
     \<and> default_device (state_of (script L e g)) = CPU
     \<and> py_model (state_of (script L e g)) = None
     \<and> E_set_default_tensor_type \<notin> set (trace (state_of (script L e g)))
     \<and> (\<forall>s. \<exists>s'. stmt_a L e s = Inl (CudaError, s'))
     \<and> (\<forall>s. \<exists>s'. stmt_b L e s = Inl (CudaError, s'))"
proof -
  note r = script_without_cuda[OF assms, of L g]
  have a: "\<forall>s. \<exists>s'. stmt_a L e s = Inl (CudaError, s')"
    using assms(2) by (simp add: stmt_a_def new_tensor_def device_ready_def raise_def)
  have b: "\<forall>s. \<exists>s'. stmt_b L e s = Inl (CudaError, s')"
    using assms(2)
    by (auto simp: stmt_b_def randn_def to_cuda_def device_ready_def raise_def Let_def
        split: device.splits prod.splits)
  show ?thesis
    using a b by (simp add: r state_of_def initial_state_def)
qed

theorem cuda_allocation_not_guarded_witness:
  "script test_lib cpu_only 0 =
           Inl (CudaError,
                (initial_state 0)\<lparr>trace := [E_import_torch, E_version, E_print, E_is_available,
                                            E_print, E_cuda_FloatTensor],
                                  stdout := [Out_version ''0.3.0b0+af3964a'', Out_cuda_available False]\<rparr>)
     \<and> py_use_cuda (state_of (script test_lib cpu_only 0)) = None
     \<and> default_device (state_of (script test_lib cpu_only 0)) = CPU
     \<and> py_model (state_of (script test_lib cpu_only 0)) = None
     \<and> E_set_default_tensor_type \<notin> set (trace (state_of (script test_lib cpu_only 0)))"
  using cuda_allocation_not_guarded[where e = cpu_only and L = test_lib and g = 0]
  by (simp add: cpu_only_def state_of_def initial_state_def)

text \<open>
  C10.  Any number of passes of the training loop that complete leave the input
  \<^verbatim>\<open>x\<close>, the target \<^verbatim>\<open>y\<close> (with its flag \<^verbatim>\<open>requires_grad\<close>), the learning rate and the
  loss function as they were.  Of the model, the layers and the shape, device and
  flag of every parameter stay the same, so only the elements of the parameters' data
  and their gradients change.  Beyond the model, the state differs at most in the
  record of calls, the printed lines and the bindings of \<^verbatim>\<open>t\<close>, \<^verbatim>\<open>y_pred\<close> and
  \<^verbatim>\<open>loss\<close>.
\<close>

theorem training_loop_frame:
  assumes "for_each (iteration L) ts s = Inr s'"
  shows "py_x s' = py_x s \<and> py_y s' = py_y s
     \<and> py_learning_rate s' = py_learning_rate s \<and> py_loss_fn s' = py_loss_fn s
     \<and> map_option (map layer_of) (py_model s') = map_option (map layer_of) (py_model s)
     \<and> map_option (\<lambda>m. map param_signature (parameters m)) (py_model s')
         = map_option (\<lambda>m. map param_signature (parameters m)) (py_model s)
     \<and> s' = s\<lparr>trace := trace s', stdout := stdout s', py_model := py_model s', py_t := py_t s',
              py_y_pred := py_y_pred s', py_loss := py_loss s'\<rparr>"
proof -
  from frame_loop[OF assms] have r: "rest s' = rest s"
    and sig: "map_option model_signature (py_model s') = map_option model_signature (py_model s)"
    by (simp_all add: frame_def)
  from r have f: "py_x s' = py_x s" "py_y s' = py_y s" "py_learning_rate s' = py_learning_rate s"
      "py_loss_fn s' = py_loss_fn s"
    by (simp_all add: rest_eq_iff)
  have "map_option (fst \<circ> model_signature) (py_model s') = map_option (fst \<circ> model_signature) (py_model s)"
    using sig by (metis option.map_comp)
  then have layers: "map_option (map layer_of) (py_model s') = map_option (map layer_of) (py_model s)"
    by (simp add: model_signature_def comp_def)
  have "map_option (snd \<circ> model_signature) (py_model s') = map_option (snd \<circ> model_signature) (py_model s)"
    using sig by (metis option.map_comp)
  then have params: "map_option (\<lambda>m. map param_signature (parameters m)) (py_model s')
         = map_option (\<lambda>m. map param_signature (parameters m)) (py_model s)"
    by (simp add: model_signature_def comp_def)
  show ?thesis
    using f layers params rest_eq_update[OF r] by blast
qed

theorem training_loop_frame_witness:
  "\<exists>s s'. exec_seq (setup_stmts test_lib jetson) (initial_state 0) = Inr s
     \<and> for_each (iteration test_lib) [0..<500] s = Inr s'
     \<and> py_x s' = py_x s \<and> py_y s' = py_y s
     \<and> py_learning_rate s' = py_learning_rate s \<and> py_loss_fn s' = py_loss_fn s
     \<and> map_option (map layer_of) (py_model s') = map_option (map layer_of) (py_model s)
     \<and> map_option (\<lambda>m. map param_signature (parameters m)) (py_model s')
         = map_option (\<lambda>m. map param_signature (parameters m)) (py_model s)
     \<and> s' = s\<lparr>trace := trace s', stdout := stdout s', py_model := py_model s', py_t := py_t s',
              py_y_pred := py_y_pred s', py_loss := py_loss s'\<rparr>"
proof -
  have h: "torch_installed jetson" "cuda_available jetson"
    by (simp_all add: jetson_def)
  from script_run[OF h, of test_lib 0] obtain s0 s where
    s: "exec_seq (setup_stmts test_lib jetson) (initial_state 0) = Inr s0"
      "script test_lib jetson 0 = Inr s"
    by blast
  then have loop: "for_each (iteration test_lib) [0..<500] s0 = Inr s"
    by (simp add: script_split stmt_train_def)
  from training_loop_frame[OF loop] s(1) loop show ?thesis
    by blast
qed

end
